theory Spec2Isabelle
  imports Main "HOL-Library.Sublist"
begin

section \<open>The text operations of the two patch scripts\<close>

text \<open>
  \<^verbatim>\<open>final_update.py\<close> and \<^verbatim>\<open>update_pages.py\<close> patch two JSX files with the string
  methods \<^verbatim>\<open>str.replace\<close>, \<^verbatim>\<open>str.split\<close>, \<^verbatim>\<open>str.join\<close> and with \<^verbatim>\<open>re.sub\<close>. A text
  is a list of characters; each library operation is written out as the left-to-right
  scan Python performs.
\<close>

text \<open>
  \<^verbatim>\<open>s.count(sub)\<close>: the number of non-overlapping occurrences of \<open>sub\<close> in \<open>s\<close>, found
  from the left. The empty string occurs \<open>len(s) + 1\<close> times.
\<close>

fun str_count :: "string \<Rightarrow> string \<Rightarrow> nat" where
  "str_count [] sub = (if sub = [] then 1 else 0)"
| "str_count (c # cs) sub =
     (if sub = [] then Suc (Suc (length cs))
      else if prefix sub (c # cs) then Suc (str_count (drop (length sub) (c # cs)) sub)
      else str_count cs sub)"

text \<open>
  The optional \<^verbatim>\<open>count\<close> argument of \<^verbatim>\<open>str.replace\<close>: \<open>None\<close> when it is not given
  (every occurrence), \<open>Some k\<close> for at most \<open>k\<close> replacements.
\<close>

fun dec :: "nat option \<Rightarrow> nat option" where
  "dec None = None"
| "dec (Some k) = Some (k - 1)"

text \<open>
  \<^verbatim>\<open>s.replace("", new, count)\<close>: with an empty \<open>old\<close> Python puts \<open>new\<close> before every
  character and at the end, as far as the count allows.
\<close>

fun replace_empty :: "string \<Rightarrow> string \<Rightarrow> nat option \<Rightarrow> string" where
  "replace_empty [] new cnt = (if cnt = Some 0 then [] else new)"
| "replace_empty (c # cs) new cnt =
     (if cnt = Some 0 then c # cs else new @ c # replace_empty cs new (dec cnt))"

text \<open>
  \<^verbatim>\<open>s.replace(old, new, count)\<close>: scan from the left; where \<open>old\<close> starts, emit \<open>new\<close>
  and go on behind the occurrence; stop replacing once the count is used up.
\<close>

fun str_replace :: "string \<Rightarrow> string \<Rightarrow> string \<Rightarrow> nat option \<Rightarrow> string" where
  "str_replace [] old new cnt = (if old = [] then replace_empty [] new cnt else [])"
| "str_replace (c # cs) old new cnt =
     (if cnt = Some 0 then c # cs
      else if old = [] then replace_empty (c # cs) new cnt
      else if prefix old (c # cs)
        then new @ str_replace (drop (length old) (c # cs)) old new (dec cnt)
      else c # str_replace cs old new cnt)"

text \<open>
  \<^verbatim>\<open>s.split(sep)\<close> for a non-empty separator: the segments between the non-overlapping
  occurrences of \<open>sep\<close>, found from the left; there is always at least one segment.
  (Python raises \<^verbatim>\<open>ValueError\<close> on an empty separator; the scripts split on one fixed
  non-empty delimiter only, and with \<open>sep = []\<close> this function gives the single
  segment \<open>s\<close>.)
\<close>

fun str_split :: "string \<Rightarrow> string \<Rightarrow> string list" where
  "str_split [] sep = [[]]"
| "str_split (c # cs) sep =
     (if sep \<noteq> [] \<and> prefix sep (c # cs)
        then [] # str_split (drop (length sep) (c # cs)) sep
      else (case str_split cs sep of
              [] \<Rightarrow> [[c]]
            | p # ps \<Rightarrow> (c # p) # ps))"

text \<open>\<^verbatim>\<open>sep.join(parts)\<close>.\<close>

fun str_join :: "string \<Rightarrow> string list \<Rightarrow> string" where
  "str_join sep [] = []"
| "str_join sep [p] = p"
| "str_join sep (p # q # ps) = p @ sep @ str_join sep (q # ps)"

section \<open>\<^verbatim>\<open>re.sub\<close> on the patterns the scripts use\<close>

text \<open>
  The uncaught exceptions a run can end with: those of the file operations
  (\<^verbatim>\<open>FileNotFoundError\<close> and \<^verbatim>\<open>PermissionError\<close> from \<^verbatim>\<open>open\<close>, \<^verbatim>\<open>UnicodeDecodeError\<close>
  from \<^verbatim>\<open>f.read()\<close>, \<^verbatim>\<open>OSError\<close> from a write the device does not take), and
  \<^verbatim>\<open>re.error\<close>, which \<^verbatim>\<open>re.sub\<close> raises when the pattern or the template is malformed.
\<close>

datatype error =
  FileNotFoundError | PermissionError | UnicodeDecodeError | OSError | ReError

text \<open>
  Every pattern of \<^verbatim>\<open>final_update.py\<close> is made of three things only: escaped or ordinary
  characters, which match themselves (\<open>Lit\<close>, a run of them, with \<^verbatim>\<open>\n\<close> the newline),
  an unescaped \<^verbatim>\<open>(\<close> that opens a capturing group and an unescaped \<^verbatim>\<open>)\<close> that closes
  one. A replacement template is made of text (\<open>Txt\<close>) and group references
  \<^verbatim>\<open>\1\<close>, \<^verbatim>\<open>\2\<close> (\<open>Ref 1\<close>, \<open>Ref 2\<close>; groups count from 1).
\<close>

datatype re_item = Lit string | LParen | RParen

datatype tmpl_item = Txt string | Ref nat

text \<open>
  Compiling the pattern: the parser keeps the number of open groups; a \<^verbatim>\<open>)\<close> with no
  group open is \<^verbatim>\<open>re.error: unbalanced parenthesis\<close>, a group still open at the end is
  \<^verbatim>\<open>re.error: missing ), unterminated subpattern\<close>.
\<close>

fun re_compile :: "re_item list \<Rightarrow> nat \<Rightarrow> error option" where
  "re_compile [] depth = (if depth = 0 then None else Some ReError)"
| "re_compile (Lit s # items) depth = re_compile items depth"
| "re_compile (LParen # items) depth = re_compile items (Suc depth)"
| "re_compile (RParen # items) depth =
     (if depth = 0 then Some ReError else re_compile items (depth - 1))"

text \<open>The text a compiled pattern matches: its literal runs, in order.\<close>

fun re_text :: "re_item list \<Rightarrow> string" where
  "re_text [] = []"
| "re_text (Lit s # items) = s @ re_text items"
| "re_text (LParen # items) = re_text items"
| "re_text (RParen # items) = re_text items"

text \<open>
  What a group captures: the text from behind its \<^verbatim>\<open>(\<close> up to the matching \<^verbatim>\<open>)\<close>.
  Groups are numbered by their opening parenthesis.
\<close>

fun until_close :: "re_item list \<Rightarrow> nat \<Rightarrow> string" where
  "until_close [] depth = []"
| "until_close (Lit s # items) depth = s @ until_close items depth"
| "until_close (LParen # items) depth = until_close items (Suc depth)"
| "until_close (RParen # items) depth =
     (if depth = 0 then [] else until_close items (depth - 1))"

fun re_groups :: "re_item list \<Rightarrow> string list" where
  "re_groups [] = []"
| "re_groups (LParen # items) = until_close items 0 # re_groups items"
| "re_groups (Lit s # items) = re_groups items"
| "re_groups (RParen # items) = re_groups items"

text \<open>
  Expanding the template with the captured groups; a reference to a group the pattern
  does not have is \<^verbatim>\<open>re.error: invalid group reference\<close> (\<open>None\<close>).
\<close>

fun expand_template :: "tmpl_item list \<Rightarrow> string list \<Rightarrow> string option" where
  "expand_template [] groups = Some []"
| "expand_template (Txt s # items) groups = map_option ((@) s) (expand_template items groups)"
| "expand_template (Ref n # items) groups =
     (if 0 < n \<and> n \<le> length groups
      then map_option ((@) (groups ! (n - 1))) (expand_template items groups)
      else None)"

text \<open>
  \<^verbatim>\<open>re.sub(pattern, repl, string, count)\<close>: compile, expand, then replace the matches
  from the left. As the pattern matches one fixed text, the matches are the occurrences
  \<^verbatim>\<open>str.replace\<close> finds. \<^verbatim>\<open>count=0\<close>, the default, replaces every match.
\<close>

definition re_sub :: "re_item list \<Rightarrow> tmpl_item list \<Rightarrow> string \<Rightarrow> nat \<Rightarrow> error + string" where
  "re_sub pattern repl s count =
     (case re_compile pattern 0 of
        Some e \<Rightarrow> Inl e
      | None \<Rightarrow>
          (case expand_template repl (re_groups pattern) of
             None \<Rightarrow> Inl ReError
           | Some new \<Rightarrow>
               Inr (str_replace s (re_text pattern) new (if count = 0 then None else Some count))))"

section \<open>Rules\<close>

text \<open>
  One \<^verbatim>\<open>content = content.replace(...)\<close> or \<^verbatim>\<open>content = re.sub(..., content, ...)\<close>
  assignment of a script.
\<close>

datatype rule =
    Replace string string "nat option"
  | ReSub "re_item list" "tmpl_item list" nat

text \<open>The text a rule searches the buffer for.\<close>

fun matcher :: "rule \<Rightarrow> string" where
  "matcher (Replace old new cnt) = old"
| "matcher (ReSub pattern repl count) = re_text pattern"

fun apply_rule :: "rule \<Rightarrow> string \<Rightarrow> error + string" where
  "apply_rule (Replace old new cnt) s = Inr (str_replace s old new cnt)"
| "apply_rule (ReSub pattern repl count) s = re_sub pattern repl s count"

text \<open>
  The \<^verbatim>\<open>count\<close> a rule is called with (\<open>None\<close>: every match; \<^verbatim>\<open>re.sub\<close> takes
  \<^verbatim>\<open>count=0\<close> for that) and the text it puts in place of a match (for \<^verbatim>\<open>re.sub\<close> the
  template with the groups filled in).
\<close>

fun rule_count :: "rule \<Rightarrow> nat option" where
  "rule_count (Replace old new cnt) = cnt"
| "rule_count (ReSub pattern repl count) = (if count = 0 then None else Some count)"

fun replacement :: "rule \<Rightarrow> string option" where
  "replacement (Replace old new cnt) = Some new"
| "replacement (ReSub pattern repl count) = expand_template repl (re_groups pattern)"

subsection \<open>The rules of \<^verbatim>\<open>final_update.py\<close>\<close>

text \<open>\<^verbatim>\<open>final_update.py\<close>, line 9: \<^verbatim>\<open>re.sub\<close> with \<^verbatim>\<open>count=1\<close>.\<close>

definition fu_station_formError_state :: rule where
  \<open>fu_station_formError_state = ReSub
    [LParen,
     Lit (''  const [toInput, setToInput] = useState('' @ [CHR 0x27] @ ''\');''),
     RParen,
     Lit ''\<newline>'']
    [Ref 1,
     Txt (''\<newline>\<newline>  // Form validation error\<newline>  const [formError, setFormError] = useState('' @ [CHR 0x27] @ ''\');\<newline>'')]
    1\<close>

text \<open>\<^verbatim>\<open>final_update.py\<close>, line 17: \<^verbatim>\<open>re.sub\<close> with \<^verbatim>\<open>count=1\<close>.\<close>

definition fu_station_addStation :: rule where
  \<open>fu_station_addStation = ReSub
    [LParen,
     Lit (''    if (type === \'from\') setFromInput('' @ [CHR 0x27] @ ''\');\<newline>    else setToInput('' @ [CHR 0x27] @ ''\');''),
     RParen,
     Lit ''\<newline>'',
     LParen,
     Lit ''  }, []'',
     RParen,
     Lit '';'',
     RParen]
    [Ref 1,
     Txt (''\<newline>    // Clear form error when user makes changes\<newline>    if (formError) setFormError('' @ [CHR 0x27] @ ''\');\<newline>''),
     Ref 2]
    1\<close>

text \<open>\<^verbatim>\<open>final_update.py\<close>, line 23: \<^verbatim>\<open>content.replace\<close> with count 1.\<close>

definition fu_station_addStation_deps :: rule where
  \<open>fu_station_addStation_deps = Replace
    (''  }, []);  // addStation'')
    (''  }, [formError]);'')
    (Some 1)\<close>

text \<open>\<^verbatim>\<open>final_update.py\<close>, line 26: \<^verbatim>\<open>re.sub\<close> with \<^verbatim>\<open>count=1\<close>.\<close>

definition fu_station_removeStation :: rule where
  \<open>fu_station_removeStation = ReSub
    [LParen,
     Lit ''      [`${type}Stations`]: prev[`${type}Stations`].filter((s) => s !== station),\<newline>    }));'',
     RParen,
     Lit ''\<newline>'',
     LParen,
     Lit ''  }, []'',
     RParen,
     Lit '';'',
     RParen]
    [Ref 1,
     Txt (''\<newline>    // Clear form error when user makes changes\<newline>    if (formError) setFormError('' @ [CHR 0x27] @ ''\');\<newline>''),
     Ref 2]
    1\<close>

text \<open>\<^verbatim>\<open>final_update.py\<close>, line 39: \<^verbatim>\<open>re.sub\<close> with \<^verbatim>\<open>count=1\<close>.\<close>

definition fu_station_updateForm :: rule where
  \<open>fu_station_updateForm = ReSub
    [LParen,
     Lit ''  const updateForm = useCallback((key, value) => {\<newline>    setForm((prev) => ({ ...prev, [key]: value }));'',
     RParen,
     Lit ''\<newline>'',
     LParen,
     Lit ''  }, []'',
     RParen,
     Lit '';'',
     RParen]
    [Ref 1,
     Txt (''\<newline>    // Clear form error when user makes changes\<newline>    if (formError) setFormError('' @ [CHR 0x27] @ ''\');\<newline>''),
     Ref 2]
    1\<close>

text \<open>\<^verbatim>\<open>final_update.py\<close>, line 52: \<^verbatim>\<open>content.replace\<close>.\<close>

definition fu_station_alert :: rule where
  \<open>fu_station_alert = Replace
    (''alert(\'Please select at least one station for both origin and destination\')'')
    (''setFormError(\'Please select at least one station for both origin and destination\')'')
    None\<close>

text \<open>\<^verbatim>\<open>final_update.py\<close>, line 58: \<^verbatim>\<open>re.sub\<close>, no count.\<close>

definition fu_station_clear_on_submit :: rule where
  \<open>fu_station_clear_on_submit = ReSub
    [LParen,
     Lit ''      if (!fromLocation || !toLocation) {\<newline>        setFormError(\'Please select at least one station for both origin and destination\');\<newline>        return;\<newline>      }'',
     RParen,
     Lit ''\<newline>\<newline>'',
     LParen,
     Lit ''      try {'',
     RParen]
    [Ref 1,
     Txt (''\<newline>\<newline>      // Clear form error on valid submission\<newline>      setFormError('' @ [CHR 0x27] @ ''\');\<newline>\<newline>''),
     Ref 2]
    0\<close>

text \<open>\<^verbatim>\<open>final_update.py\<close>, line 65: \<^verbatim>\<open>re.sub\<close>, no count.\<close>

definition fu_station_error_ui :: rule where
  \<open>fu_station_error_ui = ReSub
    [LParen,
     Lit ''        </GlassmorphicCard>\<newline>\<newline>        {/* Error */}'',
     RParen,
     Lit ''\<newline>        {error && ('']
    [Ref 1,
     Txt ''\<newline>\<newline>        {/* Form Validation Error */}\<newline>        {formError && (\<newline>          <div\<newline>            role="alert"\<newline>            aria-live="polite"\<newline>            className="mb-8 p-4 bg-red-500/20 border border-red-500/50 rounded-lg text-red-400"\<newline>          >\<newline>            <strong>Validation Error:</strong> {formError}\<newline>          </div>\<newline>        )}\<newline>\<newline>        {/* API Error */}\<newline>        {error && ('']
    0\<close>

text \<open>\<^verbatim>\<open>final_update.py\<close>, line 86: \<^verbatim>\<open>re.sub\<close>, no count.\<close>

definition fu_station_aria :: rule where
  \<open>fu_station_aria = ReSub
    [LParen,
     Lit ''{error && (\<newline>          '',
     RParen,
     Lit ''<div className="mb-8 p-4 bg-red-500/20 border border-red-500/50 rounded-lg text-red-400">'']
    [Ref 1,
     Txt ''<div\<newline>            role="alert"\<newline>            aria-live="polite"\<newline>            className="mb-8 p-4 bg-red-500/20 border border-red-500/50 rounded-lg text-red-400"\<newline>          >'']
    0\<close>

text \<open>\<^verbatim>\<open>final_update.py\<close>, line 106: \<^verbatim>\<open>re.sub\<close> with \<^verbatim>\<open>count=1\<close>.\<close>

definition fu_region_formError_state :: rule where
  \<open>fu_region_formError_state = ReSub
    [LParen,
     Lit ''  });'',
     RParen,
     Lit ''\<newline>\<newline>'',
     LParen,
     Lit ''  // Get nearby regions'',
     RParen]
    [Ref 1,
     Txt (''\<newline>\<newline>  // Form validation error\<newline>  const [formError, setFormError] = useState('' @ [CHR 0x27] @ ''\');\<newline>\<newline>''),
     Ref 2]
    1\<close>

text \<open>\<^verbatim>\<open>final_update.py\<close>, line 114: \<^verbatim>\<open>re.sub\<close> with \<^verbatim>\<open>count=1\<close>.\<close>

definition fu_region_updateForm :: rule where
  \<open>fu_region_updateForm = ReSub
    [LParen,
     Lit ''  const updateForm = useCallback((key, value) => {\<newline>    setForm((prev) => ({ ...prev, [key]: value }));'',
     RParen,
     Lit ''\<newline>\<newline>'',
     LParen,
     Lit ''    // Reset toRegion'',
     RParen]
    [Ref 1,
     Txt (''\<newline>    // Clear form error when user makes changes\<newline>    if (formError) setFormError('' @ [CHR 0x27] @ ''\');\<newline>\<newline>''),
     Ref 2]
    1\<close>

text \<open>\<^verbatim>\<open>final_update.py\<close>, line 120: \<^verbatim>\<open>re.sub\<close> with \<^verbatim>\<open>count=1\<close>.\<close>

definition fu_region_updateForm_tail :: rule where
  \<open>fu_region_updateForm_tail = ReSub
    [LParen,
     Lit ''      setForm((prev) => ({ ...prev, toRegion: \'Nearby Regions\' }));\<newline>    }\<newline>  }, []'',
     RParen,
     Lit '';'',
     RParen]
    [Ref 1]
    1\<close>

text \<open>\<^verbatim>\<open>final_update.py\<close>, line 126: \<^verbatim>\<open>content.replace\<close> with count 1.\<close>

definition fu_region_updateForm_deps :: rule where
  \<open>fu_region_updateForm_deps = Replace
    (''  }, []);  // updateForm Region'')
    (''  }, [formError]);'')
    (Some 1)\<close>

text \<open>\<^verbatim>\<open>final_update.py\<close>, line 136: \<^verbatim>\<open>content.replace\<close>.\<close>

definition fu_region_alert_origin :: rule where
  \<open>fu_region_alert_origin = Replace
    (''alert(\'Please select a valid origin region\')'')
    (''setFormError(\'Please select a valid origin region\')'')
    None\<close>

text \<open>\<^verbatim>\<open>final_update.py\<close>, line 140: \<^verbatim>\<open>content.replace\<close>.\<close>

definition fu_region_alert_destination :: rule where
  \<open>fu_region_alert_destination = Replace
    (''alert(\'Please select a valid destination region\')'')
    (''setFormError(\'Please select a valid destination region\')'')
    None\<close>

text \<open>\<^verbatim>\<open>final_update.py\<close>, line 146: \<^verbatim>\<open>re.sub\<close> with \<^verbatim>\<open>count=1\<close>.\<close>

definition fu_region_clear_on_submit :: rule where
  \<open>fu_region_clear_on_submit = ReSub
    [LParen,
     Lit ''\<newline>      const fromParam = '',
     RParen]
    [Txt (''\<newline>      // Clear form error on valid submission\<newline>      setFormError('' @ [CHR 0x27] @ ''\');\<newline>\<newline>''),
     Ref 1]
    1\<close>

text \<open>\<^verbatim>\<open>final_update.py\<close>, line 154: \<^verbatim>\<open>re.sub\<close>, no count.\<close>

definition fu_region_error_ui :: rule where
  \<open>fu_region_error_ui = ReSub
    [LParen,
     Lit ''        </GlassmorphicCard>\<newline>\<newline>        {/* Error */}'',
     RParen,
     Lit ''\<newline>        {error && ('']
    [Ref 1,
     Txt ''\<newline>\<newline>        {/* Form Validation Error */}\<newline>        {formError && (\<newline>          <div\<newline>            role="alert"\<newline>            aria-live="polite"\<newline>            className="mb-8 p-4 bg-red-500/20 border border-red-500/50 rounded-lg text-red-400"\<newline>          >\<newline>            <strong>Validation Error:</strong> {formError}\<newline>          </div>\<newline>        )}\<newline>\<newline>        {/* API Error */}\<newline>        {error && ('']
    0\<close>

text \<open>\<^verbatim>\<open>final_update.py\<close>, line 175: \<^verbatim>\<open>re.sub\<close>, no count.\<close>

definition fu_region_aria :: rule where
  \<open>fu_region_aria = ReSub
    [LParen,
     Lit ''{error && (\<newline>          '',
     RParen,
     Lit ''<div className="mb-8 p-4 bg-red-500/20 border border-red-500/50 rounded-lg text-red-400">'']
    [Ref 1,
     Txt ''<div\<newline>            role="alert"\<newline>            aria-live="polite"\<newline>            className="mb-8 p-4 bg-red-500/20 border border-red-500/50 rounded-lg text-red-400"\<newline>          >'']
    0\<close>

subsection \<open>The rules of \<^verbatim>\<open>update_pages.py\<close>\<close>

text \<open>\<^verbatim>\<open>update_pages.py\<close>, line 9: \<^verbatim>\<open>content.replace\<close>.\<close>

definition up_station_formError_state :: rule where
  \<open>up_station_formError_state = Replace
    (''  const [toInput, setToInput] = useState('' @ [CHR 0x27] @ ''\');\<newline>\<newline>  // Add station to list'')
    (''  const [toInput, setToInput] = useState('' @ [CHR 0x27] @ ''\');\<newline>\<newline>  // Form validation error\<newline>  const [formError, setFormError] = useState('' @ [CHR 0x27] @ ''\');\<newline>\<newline>  // Add station to list'')
    None\<close>

text \<open>\<^verbatim>\<open>update_pages.py\<close>, line 15: \<^verbatim>\<open>content.replace\<close>.\<close>

definition up_station_addStation :: rule where
  \<open>up_station_addStation = Replace
    (''    if (type === \'from\') setFromInput('' @ [CHR 0x27] @ ''\');\<newline>    else setToInput('' @ [CHR 0x27] @ ''\');\<newline>  }, []);'')
    (''    if (type === \'from\') setFromInput('' @ [CHR 0x27] @ ''\');\<newline>    else setToInput('' @ [CHR 0x27] @ ''\');\<newline>    // Clear form error when user makes changes\<newline>    if (formError) setFormError('' @ [CHR 0x27] @ ''\');\<newline>  }, [formError]);'')
    None\<close>

text \<open>\<^verbatim>\<open>update_pages.py\<close>, line 21: \<^verbatim>\<open>content.replace\<close>.\<close>

definition up_station_removeStation :: rule where
  \<open>up_station_removeStation = Replace
    (''      [`${type}Stations`]: prev[`${type}Stations`].filter((s) => s !== station),\<newline>    }));\<newline>  }, []);'')
    (''      [`${type}Stations`]: prev[`${type}Stations`].filter((s) => s !== station),\<newline>    }));\<newline>    // Clear form error when user makes changes\<newline>    if (formError) setFormError('' @ [CHR 0x27] @ ''\');\<newline>  }, [formError]);'')
    None\<close>

text \<open>\<^verbatim>\<open>update_pages.py\<close>, line 27: \<^verbatim>\<open>content.replace\<close>.\<close>

definition up_station_updateForm :: rule where
  \<open>up_station_updateForm = Replace
    (''  const updateForm = useCallback((key, value) => {\<newline>    setForm((prev) => ({ ...prev, [key]: value }));\<newline>  }, []);'')
    (''  const updateForm = useCallback((key, value) => {\<newline>    setForm((prev) => ({ ...prev, [key]: value }));\<newline>    // Clear form error when user makes changes\<newline>    if (formError) setFormError('' @ [CHR 0x27] @ ''\');\<newline>  }, [formError]);'')
    None\<close>

text \<open>\<^verbatim>\<open>update_pages.py\<close>, line 33: \<^verbatim>\<open>content.replace\<close>.\<close>

definition up_station_alert :: rule where
  \<open>up_station_alert = Replace
    (''        alert(\'Please select at least one station for both origin and destination\');'')
    (''        setFormError(\'Please select at least one station for both origin and destination\');'')
    None\<close>

text \<open>\<^verbatim>\<open>update_pages.py\<close>, line 39: \<^verbatim>\<open>content.replace\<close>.\<close>

definition up_station_clear_on_submit :: rule where
  \<open>up_station_clear_on_submit = Replace
    (''      if (!fromLocation || !toLocation) {\<newline>        setFormError(\'Please select at least one station for both origin and destination\');\<newline>        return;\<newline>      }\<newline>\<newline>      try {'')
    (''      if (!fromLocation || !toLocation) {\<newline>        setFormError(\'Please select at least one station for both origin and destination\');\<newline>        return;\<newline>      }\<newline>\<newline>      // Clear form error on valid submission\<newline>      setFormError('' @ [CHR 0x27] @ ''\');\<newline>\<newline>      try {'')
    None\<close>

text \<open>\<^verbatim>\<open>update_pages.py\<close>, line 45: \<^verbatim>\<open>content.replace\<close>.\<close>

definition up_station_error_ui :: rule where
  \<open>up_station_error_ui = Replace
    (''        </GlassmorphicCard>\<newline>\<newline>        {/* Error */}'')
    (''        </GlassmorphicCard>\<newline>\<newline>        {/* Form Validation Error */}\<newline>        {formError && (\<newline>          <div\<newline>            role="alert"\<newline>            aria-live="polite"\<newline>            className="mb-8 p-4 bg-red-500/20 border border-red-500/50 rounded-lg text-red-400"\<newline>          >\<newline>            <strong>Validation Error:</strong> {formError}\<newline>          </div>\<newline>        )}\<newline>\<newline>        {/* API Error */}'')
    None\<close>

text \<open>\<^verbatim>\<open>update_pages.py\<close>, line 64: \<^verbatim>\<open>content.replace\<close>.\<close>

definition up_station_aria :: rule where
  \<open>up_station_aria = Replace
    (''        {error && (\<newline>          <div className="mb-8 p-4 bg-red-500/20 border border-red-500/50 rounded-lg text-red-400">'')
    (''        {error && (\<newline>          <div\<newline>            role="alert"\<newline>            aria-live="polite"\<newline>            className="mb-8 p-4 bg-red-500/20 border border-red-500/50 rounded-lg text-red-400"\<newline>          >'')
    None\<close>

text \<open>\<^verbatim>\<open>update_pages.py\<close>, line 79: \<^verbatim>\<open>content.replace\<close>.\<close>

definition up_region_formError_state :: rule where
  \<open>up_region_formError_state = Replace
    (''  });\<newline>\<newline>  // Get nearby regions'')
    (''  });\<newline>\<newline>  // Form validation error\<newline>  const [formError, setFormError] = useState('' @ [CHR 0x27] @ ''\');\<newline>\<newline>  // Get nearby regions'')
    None\<close>

text \<open>\<^verbatim>\<open>update_pages.py\<close>, line 85: \<^verbatim>\<open>content.replace\<close>.\<close>

definition up_region_updateForm :: rule where
  \<open>up_region_updateForm = Replace
    (''  const updateForm = useCallback((key, value) => {\<newline>    setForm((prev) => ({ ...prev, [key]: value }));\<newline>\<newline>    // Reset toRegion when switching to nearby\<newline>    if (key === \'useNearby\' && value) {\<newline>      setForm((prev) => ({ ...prev, toRegion: \'Nearby Regions\' }));\<newline>    }\<newline>  }, []);'')
    (''  const updateForm = useCallback((key, value) => {\<newline>    setForm((prev) => ({ ...prev, [key]: value }));\<newline>    // Clear form error when user makes changes\<newline>    if (formError) setFormError('' @ [CHR 0x27] @ ''\');\<newline>\<newline>    // Reset toRegion when switching to nearby\<newline>    if (key === \'useNearby\' && value) {\<newline>      setForm((prev) => ({ ...prev, toRegion: \'Nearby Regions\' }));\<newline>    }\<newline>  }, [formError]);'')
    None\<close>

text \<open>\<^verbatim>\<open>update_pages.py\<close>, line 91: \<^verbatim>\<open>content.replace\<close>.\<close>

definition up_region_alert_origin :: rule where
  \<open>up_region_alert_origin = Replace
    (''        alert(\'Please select a valid origin region\');'')
    (''        setFormError(\'Please select a valid origin region\');'')
    None\<close>

text \<open>\<^verbatim>\<open>update_pages.py\<close>, line 95: \<^verbatim>\<open>content.replace\<close>.\<close>

definition up_region_alert_destination :: rule where
  \<open>up_region_alert_destination = Replace
    (''          alert(\'Please select a valid destination region\');'')
    (''          setFormError(\'Please select a valid destination region\');'')
    None\<close>

text \<open>\<^verbatim>\<open>update_pages.py\<close>, line 101: \<^verbatim>\<open>content.replace\<close>.\<close>

definition up_region_clear_on_submit :: rule where
  \<open>up_region_clear_on_submit = Replace
    (''      const fromParam = `${form.fromPreference}-${fromId}`;'')
    (''      // Clear form error on valid submission\<newline>      setFormError('' @ [CHR 0x27] @ ''\');\<newline>\<newline>      const fromParam = `${form.fromPreference}-${fromId}`;'')
    None\<close>

text \<open>\<^verbatim>\<open>update_pages.py\<close>, line 107: \<^verbatim>\<open>content.replace\<close>.\<close>

definition up_region_error_ui :: rule where
  \<open>up_region_error_ui = Replace
    (''        </GlassmorphicCard>\<newline>\<newline>        {/* Error */}'')
    (''        </GlassmorphicCard>\<newline>\<newline>        {/* Form Validation Error */}\<newline>        {formError && (\<newline>          <div\<newline>            role="alert"\<newline>            aria-live="polite"\<newline>            className="mb-8 p-4 bg-red-500/20 border border-red-500/50 rounded-lg text-red-400"\<newline>          >\<newline>            <strong>Validation Error:</strong> {formError}\<newline>          </div>\<newline>        )}\<newline>\<newline>        {/* API Error */}'')
    None\<close>

text \<open>\<^verbatim>\<open>update_pages.py\<close>, line 126: \<^verbatim>\<open>content.replace\<close>.\<close>

definition up_region_aria :: rule where
  \<open>up_region_aria = Replace
    (''        {error && (\<newline>          <div className="mb-8 p-4 bg-red-500/20 border border-red-500/50 rounded-lg text-red-400">'')
    (''        {error && (\<newline>          <div\<newline>            role="alert"\<newline>            aria-live="polite"\<newline>            className="mb-8 p-4 bg-red-500/20 border border-red-500/50 rounded-lg text-red-400"\<newline>          >'')
    None\<close>

subsection \<open>The split-and-rebuild blocks of \<^verbatim>\<open>final_update.py\<close>\<close>

text \<open>The delimiter the three blocks split on, \<^verbatim>\<open>"  }, []);"\<close>.\<close>

definition delim :: string where
  "delim = ''  }, []);''"

text \<open>
  Lines 33-36:
  \<^verbatim>\<open>parts = content.split("  }, []);")\<close>,
  \<^verbatim>\<open>if len(parts) >= 3: parts[1] = parts[1] + "  }, [formError]);"; content = parts[0] + parts[2]\<close>.
\<close>

definition removeStation_fallback :: "string \<Rightarrow> string" where
  "removeStation_fallback content =
     (let parts = str_split content delim in
      if 3 \<le> length parts then
        (let parts = parts[1 := parts ! 1 @ ''  }, [formError]);''] in
         parts ! 0 @ parts ! 2)
      else content)"

text \<open>
  Lines 46-49:
  \<^verbatim>\<open>parts = content.split("  }, []);")\<close>,
  \<^verbatim>\<open>if len(parts) >= 4: parts[2] = parts[2] + "  }, [formError]);";\<close>
  \<^verbatim>\<open>content = parts[0] + parts[1] + "  }, [formError]);" + parts[3]\<close>.
\<close>

definition updateForm_fallback :: "string \<Rightarrow> string" where
  "updateForm_fallback content =
     (let parts = str_split content delim in
      if 4 \<le> length parts then
        (let parts = parts[2 := parts ! 2 @ ''  }, [formError]);''] in
         parts ! 0 @ parts ! 1 @ ''  }, [formError]);'' @ parts ! 3)
      else content)"

text \<open>
  Lines 128-133:
  \<^verbatim>\<open>parts = content.split("  }, []);")\<close>,
  \<^verbatim>\<open>if len(parts) >= 2: parts[0] = parts[0] + "  }, [formError]);";\<close>
  \<^verbatim>\<open>content = "  }, []);".join(parts[1:]); content = parts[0] + content\<close>.
\<close>

definition region_updateForm_fallback :: "string \<Rightarrow> string" where
  "region_updateForm_fallback content =
     (let parts = str_split content delim in
      if 2 \<le> length parts then
        (let parts = parts[0 := parts ! 0 @ ''  }, [formError]);''];
             content = str_join delim (drop 1 parts) in
         parts ! 0 @ content)
      else content)"

section \<open>The scripts\<close>

text \<open>
  A script is a straight line of statements over the files on disk, the variable
  \<^verbatim>\<open>content\<close> and the standard output. \<open>ReadFile\<close> is
  \<^verbatim>\<open>with open(path, 'r') as f: content = f.read()\<close>, \<open>Assign\<close> one rule,
  \<open>Rebuild\<close> one split-and-rebuild block, \<open>WriteFile\<close> is
  \<^verbatim>\<open>with open(path, 'w') as f: f.write(content)\<close> and \<open>Print\<close> one \<^verbatim>\<open>print\<close>.
\<close>

datatype stmt =
    ReadFile string
  | Assign rule
  | Rebuild "string \<Rightarrow> string"
  | WriteFile string
  | Print string

subsection \<open>Files\<close>

text \<open>
  What the two \<^verbatim>\<open>open\<close> calls can meet in a file on disk: \<open>decoded\<close> is the text its
  bytes decode to in the default encoding, line ends as stored (\<open>None\<close> when the bytes do
  not decode: \<^verbatim>\<open>UnicodeDecodeError\<close>); \<open>readable\<close> and \<open>writable\<close> say whether it may be
  opened in that mode (\<^verbatim>\<open>PermissionError\<close> otherwise); \<open>capacity\<close> is the number of
  characters its device takes in one write before failing with \<^verbatim>\<open>OSError\<close> (\<open>None\<close>: no
  limit).
\<close>

record disk_file =
  decoded :: "string option"
  readable :: bool
  writable :: bool
  capacity :: "nat option"

text \<open>An ordinary file holding the text \<open>t\<close>.\<close>

definition plain_file :: "string \<Rightarrow> disk_file" where
  "plain_file t = \<lparr>decoded = Some t, readable = True, writable = True, capacity = None\<rparr>"

text \<open>
  Text mode with the default \<^verbatim>\<open>newline=None\<close>. Reading turns every CR LF and every
  remaining CR into LF. Writing turns every LF into \<^verbatim>\<open>os.linesep\<close>, which is LF itself
  on POSIX systems (CR LF on Windows).
\<close>

fun universal_newlines :: "string \<Rightarrow> string" where
  "universal_newlines [] = []"
| "universal_newlines [c] = (if c = CHR 0x0D then [CHR 0x0A] else [c])"
| "universal_newlines (c # d # cs) =
     (if c = CHR 0x0D \<and> d = CHR 0x0A then CHR 0x0A # universal_newlines cs
      else if c = CHR 0x0D then CHR 0x0A # universal_newlines (d # cs)
      else c # universal_newlines (d # cs))"

definition os_linesep :: string where
  "os_linesep = [CHR 0x0A]"

definition newlines_out :: "string \<Rightarrow> string" where
  "newlines_out t = str_replace t [CHR 0x0A] os_linesep None"

text \<open>
  \<^verbatim>\<open>with open(path, 'r') as f: content = f.read()\<close> on what the disk holds at the path
  (\<open>None\<close>: no such file): the exception raised, or the text read.
\<close>

fun read_file :: "disk_file option \<Rightarrow> error + string" where
  "read_file None = Inl FileNotFoundError"
| "read_file (Some f) =
     (if \<not> readable f then Inl PermissionError
      else (case decoded f of
              None \<Rightarrow> Inl UnicodeDecodeError
            | Some t \<Rightarrow> Inr (universal_newlines t)))"

text \<open>
  \<^verbatim>\<open>with open(path, 'w') as f: f.write(content)\<close>: the file the disk holds afterwards and
  the exception raised, if any. \<^verbatim>\<open>open\<close> fails on a file that may not be written and
  leaves it as it is. Otherwise \<^verbatim>\<open>open\<close> empties the file at once and the buffer is
  written into the file itself (there is no temporary file and no rename): all of it
  where the device takes it, else only the leading part the device took, and \<^verbatim>\<open>OSError\<close>
  is raised. Opening a path the disk does not hold creates the file. (The buffer holds
  characters read from the same encoding and the ASCII text of the rules, so encoding it
  does not fail.)
\<close>

fun write_file :: "disk_file option \<Rightarrow> string \<Rightarrow> disk_file \<times> error option" where
  "write_file None t = (plain_file (newlines_out t), None)"
| "write_file (Some f) t =
     (if \<not> writable f then (f, Some PermissionError)
      else (case capacity f of
              None \<Rightarrow> (f\<lparr>decoded := Some (newlines_out t)\<rparr>, None)
            | Some n \<Rightarrow>
                if length (newlines_out t) \<le> n
                then (f\<lparr>decoded := Some (newlines_out t)\<rparr>, None)
                else (f\<lparr>decoded := Some (take n (newlines_out t))\<rparr>, Some OSError)))"

subsection \<open>Statements\<close>

text \<open>
  The disk is a partial map from paths to files. The field \<open>content\<close> stands for the
  variable of that name: Python has it unbound until the first read, and no statement of
  the scripts uses it before. A statement returns the state it leaves and the exception
  it raises, if any; a failed write has changed the disk all the same.
\<close>

record state =
  files :: "string \<rightharpoonup> disk_file"
  content :: string
  stdout :: "string list"

fun exec_stmt :: "stmt \<Rightarrow> state \<Rightarrow> state \<times> error option" where
  "exec_stmt (ReadFile path) s =
     (case read_file (files s path) of
        Inl e \<Rightarrow> (s, Some e)
      | Inr t \<Rightarrow> (s\<lparr>content := t\<rparr>, None))"
| "exec_stmt (Assign r) s =
     (case apply_rule r (content s) of
        Inl e \<Rightarrow> (s, Some e)
      | Inr t \<Rightarrow> (s\<lparr>content := t\<rparr>, None))"
| "exec_stmt (Rebuild f) s = (s\<lparr>content := f (content s)\<rparr>, None)"
| "exec_stmt (WriteFile path) s =
     (case write_file (files s path) (content s) of
        (f, e) \<Rightarrow> (s\<lparr>files := (files s)(path \<mapsto> f)\<rparr>, e))"
| "exec_stmt (Print line) s = (s\<lparr>stdout := stdout s @ [line]\<rparr>, None)"

text \<open>
  Running the statements in order. An exception is not caught anywhere: the run stops
  at the statement that raises, in the state that statement left.
\<close>

fun exec :: "stmt list \<Rightarrow> state \<Rightarrow> state \<times> error option" where
  "exec [] s = (s, None)"
| "exec (c # cs) s =
     (case exec_stmt c s of
        (s', Some e) \<Rightarrow> (s', Some e)
      | (s', None) \<Rightarrow> exec cs s')"

text \<open>The exit code of the Python process: 0 at the end of the script, 1 after an
  uncaught exception.\<close>

fun exit_code :: "state \<times> error option \<Rightarrow> nat" where
  "exit_code (s, None) = 0"
| "exit_code (s, Some e) = 1"

text \<open>
  A run of consecutive rule assignments, as a function of the buffer: each rule gets the
  text the one before it returned, and the first exception ends the run.
\<close>

fun run_rules :: "rule list \<Rightarrow> string \<Rightarrow> error + string" where
  "run_rules [] s = Inr s"
| "run_rules (r # rs) s =
     (case apply_rule r s of
        Inl e \<Rightarrow> Inl e
      | Inr s' \<Rightarrow> run_rules rs s')"


definition station_path :: string where
  "station_path = ''src/pages/StationHaulingPage.jsx''"

definition region_path :: string where
  "region_path = ''src/pages/RegionHaulingPage.jsx''"

text \<open>\<^verbatim>\<open>final_update.py\<close>, lines 4-99 and lines 101-189.\<close>

definition final_update_station :: "stmt list" where
  "final_update_station =
     [ReadFile station_path,
      Assign fu_station_formError_state,
      Assign fu_station_addStation,
      Assign fu_station_addStation_deps,
      Assign fu_station_removeStation,
      Rebuild removeStation_fallback,
      Assign fu_station_updateForm,
      Rebuild updateForm_fallback,
      Assign fu_station_alert,
      Assign fu_station_clear_on_submit,
      Assign fu_station_error_ui,
      Assign fu_station_aria,
      WriteFile station_path,
      Print ([CHR 0xE2, CHR 0x9C, CHR 0x93] @ '' Updated StationHaulingPage.jsx'')]"

definition final_update_region :: "stmt list" where
  "final_update_region =
     [ReadFile region_path,
      Assign fu_region_formError_state,
      Assign fu_region_updateForm,
      Assign fu_region_updateForm_tail,
      Assign fu_region_updateForm_deps,
      Rebuild region_updateForm_fallback,
      Assign fu_region_alert_origin,
      Assign fu_region_alert_destination,
      Assign fu_region_clear_on_submit,
      Assign fu_region_error_ui,
      Assign fu_region_aria,
      WriteFile region_path,
      Print ([CHR 0xE2, CHR 0x9C, CHR 0x93] @ '' Updated RegionHaulingPage.jsx''),
      Print (''\<newline>'' @ [CHR 0xE2, CHR 0x9C, CHR 0x85] @ '' All changes applied successfully!'')]"

definition final_update :: "stmt list" where
  "final_update = final_update_station @ final_update_region"

text \<open>
  \<^verbatim>\<open>update_pages.py\<close>, lines 4-72 and lines 74-135. Between reading and writing a
  page this script does nothing but \<^verbatim>\<open>content = content.replace(...)\<close>, so each page
  is given by the list of its rules, in the order of the source.
\<close>

definition up_station_rules :: "rule list" where
  "up_station_rules =
     [up_station_formError_state,
      up_station_addStation,
      up_station_removeStation,
      up_station_updateForm,
      up_station_alert,
      up_station_clear_on_submit,
      up_station_error_ui,
      up_station_aria]"

definition up_region_rules :: "rule list" where
  "up_region_rules =
     [up_region_formError_state,
      up_region_updateForm,
      up_region_alert_origin,
      up_region_alert_destination,
      up_region_clear_on_submit,
      up_region_error_ui,
      up_region_aria]"

definition update_pages_station :: "stmt list" where
  "update_pages_station =
     ReadFile station_path # map Assign up_station_rules @
     [WriteFile station_path,
      Print ''Updated StationHaulingPage.jsx'']"

definition update_pages_region :: "stmt list" where
  "update_pages_region =
     ReadFile region_path # map Assign up_region_rules @
     [WriteFile region_path,
      Print ''Updated RegionHaulingPage.jsx'',
      Print ''All files updated successfully!'']"

definition update_pages :: "stmt list" where
  "update_pages = update_pages_station @ update_pages_region"

section \<open>Facts about the text operations\<close>

lemma prefix_drop: "prefix p s \<Longrightarrow> p @ drop (length p) s = s"
  by (auto simp: prefix_def)

lemma str_replace_no_count: "str_replace s old new (Some 0) = s"
  by (cases s) auto

lemma str_count_0_nonempty: "str_count s old = 0 \<Longrightarrow> old \<noteq> []"
  by (cases s) auto

lemma str_replace_unmatched: "str_count s old = 0 \<Longrightarrow> str_replace s old new cnt = s"
  by (induction s) (auto split: if_splits)

lemma str_split_not_Nil: "str_split s sep \<noteq> []"
  by (induction s sep rule: str_split.induct) (auto split: list.splits)

lemma str_join_Cons: "ps \<noteq> [] \<Longrightarrow> str_join sep (p # ps) = p @ sep @ str_join sep ps"
  by (cases ps) auto

lemma str_join_split: "str_join sep (str_split s sep) = s"
proof (induction s sep rule: str_split.induct)
  case (1 sep)
  show ?case by simp
next
  case (2 c cs sep)
  show ?case
  proof (cases "sep \<noteq> [] \<and> prefix sep (c # cs)")
    case True
    then have "str_join sep (str_split (drop (length sep) (c # cs)) sep) = drop (length sep) (c # cs)"
      using 2 by simp
    then show ?thesis
      using True prefix_drop [of sep "c # cs"] by (simp add: str_join_Cons str_split_not_Nil)
  next
    case False
    then have IH: "str_join sep (str_split cs sep) = cs" using 2 by blast
    obtain p ps where sp: "str_split cs sep = p # ps"
      using str_split_not_Nil [of cs sep] by (cases "str_split cs sep") auto
    show ?thesis
      using False IH sp by (cases ps) auto
  qed
qed

lemma length_str_split: "sep \<noteq> [] \<Longrightarrow> length (str_split s sep) = Suc (str_count s sep)"
  by (induction s sep rule: str_split.induct) (auto split: list.splits simp: str_split_not_Nil)

lemma str_replace_all: "old \<noteq> [] \<Longrightarrow> str_replace s old new None = str_join new (str_split s old)"
proof (induction s old rule: str_split.induct)
  case (1 sep)
  then show ?case by simp
next
  case (2 c cs sep)
  show ?case
  proof (cases "prefix sep (c # cs)")
    case True
    then show ?thesis using 2 by (simp add: str_join_Cons str_split_not_Nil)
  next
    case False
    obtain p ps where sp: "str_split cs sep = p # ps"
      using str_split_not_Nil [of cs sep] by (cases "str_split cs sep") auto
    show ?thesis using False 2 sp by (cases ps) auto
  qed
qed

lemma str_replace_first:
  "old \<noteq> [] \<Longrightarrow>
   str_replace s old new (Some 1) =
     (case str_split s old of
        p # q # ps \<Rightarrow> p @ new @ str_join old (q # ps)
      | _ \<Rightarrow> s)"
proof (induction s old rule: str_split.induct)
  case (1 sep)
  then show ?case by simp
next
  case (2 c cs sep)
  show ?case
  proof (cases "prefix sep (c # cs)")
    case True
    obtain q qs where sp: "str_split (drop (length sep) (c # cs)) sep = q # qs"
      using str_split_not_Nil by (cases "str_split (drop (length sep) (c # cs)) sep") auto
    have "str_join sep (q # qs) = drop (length sep) (c # cs)"
      using str_join_split [of sep "drop (length sep) (c # cs)"] sp by simp
    then show ?thesis using True 2 sp by (simp add: str_replace_no_count)
  next
    case False
    obtain p ps where sp: "str_split cs sep = p # ps"
      using str_split_not_Nil [of cs sep] by (cases "str_split cs sep") auto
    show ?thesis using False 2 sp by (cases ps) auto
  qed
qed

lemma prefix_append_long: "length p \<le> length a \<Longrightarrow> prefix p (a @ t) \<longleftrightarrow> prefix p a"
  by (metis prefix_append prefix_length_prefix prefix_order.dual_order.refl prefix_prefix prefix_order.order_trans)

lemma str_split_first:
  "old \<noteq> [] \<Longrightarrow> str_split s old = p # q # ps \<Longrightarrow> str_split (p @ old @ t) old = p # str_split t old"
proof (induction s old arbitrary: p rule: str_split.induct)
  case (1 sep)
  then show ?case by simp
next
  case (2 c cs sep)
  show ?case
  proof (cases "prefix sep (c # cs)")
    case True
    then have "p = []" using 2 by simp
    then show ?thesis using 2(3) by (cases sep) auto
  next
    case False
    obtain p' where p': "p = c # p'" "str_split cs sep = p' # q # ps"
      using False 2(4) by (auto split: list.splits)
    have IH: "str_split (p' @ sep @ t) sep = p' # str_split t sep"
      using 2(2) [OF _ 2(3) p'(2)] False by simp
    have cs: "cs = p' @ sep @ str_join sep (q # ps)"
      using str_join_split [of sep cs] p'(2) by simp
    have "\<not> prefix sep (c # p' @ sep)"
      using False cs prefix_append_long [of sep "c # p' @ sep" "str_join sep (q # ps)"] by simp
    then have "\<not> prefix sep (c # p' @ sep @ t)"
      using prefix_append_long [of sep "c # p' @ sep" t] by simp
    then show ?thesis using IH p' by simp
  qed
qed

section \<open>A rule that finds nothing\<close>

text \<open>
  C5. For every buffer and every rule whose matcher has no occurrence in it, the buffer
  the rule returns is the buffer it was given. The scripts have no notion of a required
  rule, so this holds for each \<^verbatim>\<open>content.replace\<close> and each \<^verbatim>\<open>re.sub\<close> alike
  (a \<^verbatim>\<open>re.sub\<close> whose pattern does not compile raises and returns no buffer at all).
\<close>

theorem unmatched_rule_keeps_buffer:
  "str_count s (matcher r) = 0 \<Longrightarrow> apply_rule r s = Inr s' \<Longrightarrow> s' = s"
proof (cases r)
  case (Replace old new cnt)
  assume "str_count s (matcher r) = 0" and "apply_rule r s = Inr s'"
  with Replace show ?thesis by (simp add: str_replace_unmatched)
next
  case (ReSub pattern repl count)
  assume "str_count s (matcher r) = 0" and "apply_rule r s = Inr s'"
  with ReSub show ?thesis
    by (auto simp: re_sub_def str_replace_unmatched split: option.splits)
qed

theorem unmatched_rule_keeps_buffer_witness:
  \<open>str_count ''const x = 1;'' (matcher fu_station_formError_state) = 0 \<and>
   apply_rule fu_station_formError_state ''const x = 1;'' = Inr ''const x = 1;'' \<and>
   str_count ''const x = 1;'' (matcher up_station_formError_state) = 0 \<and>
   apply_rule up_station_formError_state ''const x = 1;'' = Inr ''const x = 1;''\<close>
proof -
  have c1: "str_count ''const x = 1;'' (matcher fu_station_formError_state) = 0"
    by (simp add: fu_station_formError_state_def)
  obtain t1 where a1: "apply_rule fu_station_formError_state ''const x = 1;'' = Inr t1"
    by (simp add: fu_station_formError_state_def re_sub_def)
  have c2: "str_count ''const x = 1;'' (matcher up_station_formError_state) = 0"
    by (simp add: up_station_formError_state_def)
  obtain t2 where a2: "apply_rule up_station_formError_state ''const x = 1;'' = Inr t2"
    by (simp add: up_station_formError_state_def)
  show ?thesis
    using c1 c2 a1 a2 unmatched_rule_keeps_buffer [OF c1 a1] unmatched_rule_keeps_buffer [OF c2 a2]
    by simp
qed

section \<open>The split-and-rebuild blocks lose text\<close>

lemma str_join_concat: "str_join sep (p # ps) = p @ concat (map ((@) sep) ps)"
  by (induction ps arbitrary: p) (auto simp: str_join_Cons)

lemma delim_not_Nil: "delim \<noteq> []"
  by (simp add: delim_def)

lemma length_delim: "length delim = 9"
  by (simp add: delim_def)

lemma four_parts:
  assumes "3 \<le> str_count buf delim"
  obtains p0 p1 p2 p3 rest where "str_split buf delim = p0 # p1 # p2 # p3 # rest"
proof -
  have "4 \<le> length (str_split buf delim)"
    using assms length_str_split [OF delim_not_Nil, of buf] by simp
  then show ?thesis
    using that by (auto simp: Suc_le_length_iff numeral_eq_Suc)
qed

text \<open>
  C2. In every buffer where the delimiter \<^verbatim>\<open>"  }, []);"\<close> occurs at least three times
  (four or more parts), the removeStation block rebuilds the content as
  \<^verbatim>\<open>parts[0] + parts[2]\<close>: the first two delimiters, the segment between them and
  everything from the third delimiter on are gone. The updateForm block rebuilds it as
  \<^verbatim>\<open>parts[0] + parts[1] + "  }, [formError]);" + parts[3]\<close>: the first delimiter, the
  third segment and everything behind the fourth part are gone. Both results are
  strictly shorter than the buffer, so neither is a substitution in place.
\<close>

theorem fallbacks_lose_text:
  "3 \<le> str_count buf delim \<Longrightarrow>
   \<exists>p0 p1 p2 p3 rest.
     str_split buf delim = p0 # p1 # p2 # p3 # rest \<and>
     buf = p0 @ delim @ p1 @ delim @ p2 @ delim @ p3 @ concat (map ((@) delim) rest) \<and>
     removeStation_fallback buf = p0 @ p2 \<and>
     updateForm_fallback buf = p0 @ p1 @ ''  }, [formError]);'' @ p3 \<and>
     length (removeStation_fallback buf) < length buf \<and>
     length (updateForm_fallback buf) < length buf"
proof -
  assume occ: "3 \<le> str_count buf delim"
  then obtain p0 p1 p2 p3 rest where sp: "str_split buf delim = p0 # p1 # p2 # p3 # rest"
    by (rule four_parts)
  have "buf = str_join delim (p0 # p1 # p2 # p3 # rest)"
    using str_join_split [of delim buf] sp by simp
  then have c: "buf = p0 @ delim @ p1 @ delim @ p2 @ delim @ p3 @ concat (map ((@) delim) rest)"
    by (simp add: str_join_concat)
  have r: "removeStation_fallback buf = p0 @ p2"
    by (simp add: removeStation_fallback_def sp)
  have u: "updateForm_fallback buf = p0 @ p1 @ ''  }, [formError]);'' @ p3"
    by (simp add: updateForm_fallback_def sp)
  have len: "length buf = length p0 + length p1 + length p2 + length p3 + 27 +
      length (concat (map ((@) delim) rest))"
    by (subst c) (simp add: length_delim)
  have lr: "length (removeStation_fallback buf) < length buf"
    using len by (simp add: r)
  have lu: "length (updateForm_fallback buf) < length buf"
    using len by (simp add: u)
  show ?thesis using sp c r u lr lu by blast
qed

theorem fallbacks_lose_text_witness:
  "3 \<le> str_count ''A  }, []);B  }, []);C  }, []);D  }, []);E'' delim \<and>
   removeStation_fallback ''A  }, []);B  }, []);C  }, []);D  }, []);E'' = ''AC'' \<and>
   updateForm_fallback ''A  }, []);B  }, []);C  }, []);D  }, []);E'' = ''AB  }, [formError]);D''"
proof -
  let ?w = "''A  }, []);B  }, []);C  }, []);D  }, []);E''"
  have occ: "3 \<le> str_count ?w delim"
    by (simp add: delim_def)
  have sp: "str_split ?w delim = [''A'', ''B'', ''C'', ''D'', ''E'']"
    by (simp add: delim_def)
  from fallbacks_lose_text [OF occ] sp
  have "removeStation_fallback ?w = ''A'' @ ''C'' \<and>
        updateForm_fallback ?w = ''A'' @ ''B'' @ ''  }, [formError]);'' @ ''D''"
    by auto
  with occ show ?thesis by simp
qed

section \<open>How many matches a rule replaces\<close>

lemma apply_rule_Inr:
  "apply_rule r s = Inr s' \<Longrightarrow>
   \<exists>new. replacement r = Some new \<and> s' = str_replace s (matcher r) new (rule_count r)"
  by (cases r) (auto simp: re_sub_def split: option.splits)

text \<open>
  C6, as the code has it. A rule called without a count replaces every non-overlapping
  match, found from the left, with its replacement; a rule called with count 1 (every
  counted rule of the scripts) replaces the leftmost match only and keeps the rest of
  the buffer, later matches included, as it is.
\<close>

theorem rule_replaces_all_or_first:
  "matcher r \<noteq> [] \<Longrightarrow> apply_rule r s = Inr s' \<Longrightarrow>
   \<exists>new. replacement r = Some new \<and>
     s = str_join (matcher r) (str_split s (matcher r)) \<and>
     (rule_count r = None \<longrightarrow> s' = str_join new (str_split s (matcher r))) \<and>
     (rule_count r = Some 1 \<longrightarrow>
        s' = (case str_split s (matcher r) of
                p # q # ps \<Rightarrow> p @ new @ str_join (matcher r) (q # ps)
              | _ \<Rightarrow> s))"
proof -
  assume ne: "matcher r \<noteq> []" and ap: "apply_rule r s = Inr s'"
  from apply_rule_Inr [OF ap] obtain new where
    new: "replacement r = Some new" "s' = str_replace s (matcher r) new (rule_count r)"
    by blast
  have "rule_count r = None \<longrightarrow> s' = str_join new (str_split s (matcher r))"
    using new(2) str_replace_all [OF ne] by simp
  moreover have "rule_count r = Some 1 \<longrightarrow>
        s' = (case str_split s (matcher r) of
                p # q # ps \<Rightarrow> p @ new @ str_join (matcher r) (q # ps)
              | _ \<Rightarrow> s)"
    using new(2) str_replace_first [OF ne] by simp
  ultimately show ?thesis
    using new(1) str_join_split [of "matcher r" s] by auto
qed

lemma matcher_fu_station_formError_state:
  \<open>matcher fu_station_formError_state =
     ''  const [toInput, setToInput] = useState('' @ [CHR 0x27] @ ''\');\<newline>''\<close>
  by (simp add: fu_station_formError_state_def)

lemma replacement_fu_station_formError_state:
  \<open>replacement fu_station_formError_state =
     Some (matcher fu_station_formError_state @
       ''\<newline>  // Form validation error\<newline>  const [formError, setFormError] = useState('' @ [CHR 0x27] @ ''\');\<newline>'')\<close>
  by (simp add: fu_station_formError_state_def)

lemma apply_fu_station_formError_state:
  "apply_rule fu_station_formError_state s =
     Inr (str_replace s (matcher fu_station_formError_state)
       (the (replacement fu_station_formError_state)) (Some 1))"
  by (simp add: fu_station_formError_state_def re_sub_def)

text \<open>
  C6 fails on the code where a rule is called with \<^verbatim>\<open>count=1\<close>: on a buffer made of the
  matched line twice, the formError-state rule of \<^verbatim>\<open>final_update.py\<close> finds two
  occurrences and rewrites the first one only; the second stays as it was.
\<close>

theorem count_1_replaces_first_only:
  \<open>str_count (matcher fu_station_formError_state @ matcher fu_station_formError_state)
     (matcher fu_station_formError_state) = 2 \<and>
   apply_rule fu_station_formError_state
     (matcher fu_station_formError_state @ matcher fu_station_formError_state) =
     Inr (matcher fu_station_formError_state @
       ''\<newline>  // Form validation error\<newline>  const [formError, setFormError] = useState('' @ [CHR 0x27] @ ''\');\<newline>'' @
       matcher fu_station_formError_state)\<close>
  unfolding apply_fu_station_formError_state replacement_fu_station_formError_state
  unfolding matcher_fu_station_formError_state
  by simp


lemma matcher_up_station_alert:
  \<open>matcher up_station_alert =
     ''        alert(\'Please select at least one station for both origin and destination\');''\<close>
  by (simp add: up_station_alert_def)

theorem rule_replaces_all_or_first_witness:
  \<open>matcher up_station_alert \<noteq> [] \<and> rule_count up_station_alert = None \<and>
   apply_rule up_station_alert (matcher up_station_alert @ ''|'' @ matcher up_station_alert) =
     Inr (''        setFormError(\'Please select at least one station for both origin and destination\');|        setFormError(\'Please select at least one station for both origin and destination\');'') \<and>
   matcher fu_station_formError_state \<noteq> [] \<and> rule_count fu_station_formError_state = Some 1 \<and>
   apply_rule fu_station_formError_state (''x'' @ matcher fu_station_formError_state @ ''y'') =
     Inr (''x'' @ the (replacement fu_station_formError_state) @ ''y'')\<close>
proof -
  let ?a = "matcher up_station_alert"
  let ?m = "matcher fu_station_formError_state"
  have ne: "?a \<noteq> []" and cnt: "rule_count up_station_alert = None"
    and new: \<open>replacement up_station_alert =
      Some ''        setFormError(\'Please select at least one station for both origin and destination\');''\<close>
    by (simp_all add: up_station_alert_def)
  obtain t where ap: "apply_rule up_station_alert (?a @ ''|'' @ ?a) = Inr t"
    by (simp add: up_station_alert_def)
  have sp: "str_split (?a @ ''|'' @ ?a) ?a = [[], ''|'', []]"
    unfolding matcher_up_station_alert by simp
  have t: \<open>t = ''        setFormError(\'Please select at least one station for both origin and destination\');|        setFormError(\'Please select at least one station for both origin and destination\');''\<close>
    using rule_replaces_all_or_first [OF ne ap] cnt new sp by simp
  have ne': "?m \<noteq> []" and cnt': "rule_count fu_station_formError_state = Some 1"
    by (simp_all add: fu_station_formError_state_def)
  obtain u where ap': "apply_rule fu_station_formError_state (''x'' @ ?m @ ''y'') = Inr u"
    by (simp add: apply_fu_station_formError_state)
  have sp': "str_split (''x'' @ ?m @ ''y'') ?m = [''x'', ''y'']"
    unfolding matcher_fu_station_formError_state by simp
  have u: "u = ''x'' @ the (replacement fu_station_formError_state) @ ''y''"
    using rule_replaces_all_or_first [OF ne' ap'] cnt' sp' by auto
  show ?thesis
    using ne cnt ap t ne' cnt' ap' u by simp
qed

section \<open>Running a rule on its own output\<close>

lemma str_split_matched:
  assumes "old \<noteq> []" and "0 < str_count s old"
  obtains p q ps where "str_split s old = p # q # ps"
proof -
  have "2 \<le> length (str_split s old)"
    using assms length_str_split [of old s] by simp
  then show ?thesis
    using that by (auto simp: Suc_le_length_iff numeral_eq_Suc)
qed

lemma replacement_keeps_matcher:
  assumes ne: "old \<noteq> []" and occ: "0 < str_count s old"
  shows "\<exists>p t. s = p @ old @ t \<and>
           str_replace s old (old @ x) (Some 1) = p @ old @ x @ t \<and>
           0 < str_count (p @ old @ x @ t) old \<and>
           str_replace (p @ old @ x @ t) old (old @ x) (Some 1) = p @ old @ x @ x @ t"
proof -
  obtain p q ps where sp: "str_split s old = p # q # ps"
    using ne occ by (rule str_split_matched)
  define t where "t = str_join old (q # ps)"
  have s: "s = p @ old @ t"
    using str_join_split [of old s] sp by (simp add: t_def)
  have first: "str_replace s old (old @ x) (Some 1) = p @ old @ x @ t"
    using str_replace_first [OF ne, of s "old @ x"] sp by (simp add: t_def)
  have sp1: "str_split (p @ old @ x @ t) old = p # str_split (x @ t) old"
    using str_split_first [OF ne sp, of "x @ t"] by simp
  obtain q' ps' where sp2: "str_split (x @ t) old = q' # ps'"
    using str_split_not_Nil [of "x @ t" old] by (cases "str_split (x @ t) old") auto
  have j: "str_join old (q' # ps') = x @ t"
    using str_join_split [of old "x @ t"] sp2 by simp
  have again: "0 < str_count (p @ old @ x @ t) old"
    using length_str_split [OF ne, of "p @ old @ x @ t"] sp1 sp2 by simp
  have second: "str_replace (p @ old @ x @ t) old (old @ x) (Some 1) = p @ old @ x @ x @ t"
    using str_replace_first [OF ne, of "p @ old @ x @ t" "old @ x"] sp1 sp2 j by simp
  show ?thesis using s first again second by blast
qed

text \<open>
  C1, as the code has it. Whenever a rule has run and its matcher has no occurrence in
  its output, running it again raises nothing, replaces nothing and returns that output
  unchanged. The formError-state rule of \<^verbatim>\<open>final_update.py\<close> (lines 9-14) is not of
  that kind: its replacement begins with the very line it matches, so the matcher still
  occurs in its output, and a second application puts a second declaration behind the
  first.
\<close>

theorem rerun_rule:
  \<open>apply_rule r s = Inr s1 \<Longrightarrow>
   (str_count s1 (matcher r) = 0 \<longrightarrow> apply_rule r s1 = Inr s1) \<and>
   (r = fu_station_formError_state \<longrightarrow> 0 < str_count s (matcher r) \<longrightarrow>
      0 < str_count s1 (matcher r) \<and>
      (\<exists>p t. s = p @ matcher r @ t \<and>
         s1 = p @ matcher r @
           (''\<newline>  // Form validation error\<newline>  const [formError, setFormError] = useState('' @ [CHR 0x27] @ ''\');\<newline>'') @ t \<and>
         apply_rule r s1 = Inr (p @ matcher r @
           (''\<newline>  // Form validation error\<newline>  const [formError, setFormError] = useState('' @ [CHR 0x27] @ ''\');\<newline>'') @
           (''\<newline>  // Form validation error\<newline>  const [formError, setFormError] = useState('' @ [CHR 0x27] @ ''\');\<newline>'') @ t)))\<close>
proof -
  define x where \<open>x = ''\<newline>  // Form validation error\<newline>  const [formError, setFormError] = useState('' @ [CHR 0x27] @ ''\');\<newline>''\<close>
  assume ap: "apply_rule r s = Inr s1"
  from apply_rule_Inr [OF ap] obtain new where
    new: "replacement r = Some new" "s1 = str_replace s (matcher r) new (rule_count r)"
    by blast
  have same: "apply_rule r s1 = Inr (str_replace s1 (matcher r) new (rule_count r))"
    using ap new(1) by (cases r) (auto simp: re_sub_def split: option.splits)
  have a: "str_count s1 (matcher r) = 0 \<longrightarrow> apply_rule r s1 = Inr s1"
    using same by (simp add: str_replace_unmatched)
  have b: "0 < str_count s1 (matcher r) \<and>
      (\<exists>p t. s = p @ matcher r @ t \<and> s1 = p @ matcher r @ x @ t \<and>
         apply_rule r s1 = Inr (p @ matcher r @ x @ x @ t))"
    if r: "r = fu_station_formError_state" and occ: "0 < str_count s (matcher r)"
  proof -
    have ne: "matcher r \<noteq> []"
      unfolding r matcher_fu_station_formError_state by simp
    have "replacement r = Some (matcher r @ x)"
      unfolding r x_def by (rule replacement_fu_station_formError_state)
    then have rep: "new = matcher r @ x"
      using new(1) by simp
    have cnt: "rule_count r = Some 1"
      unfolding r by (simp add: fu_station_formError_state_def)
    from replacement_keeps_matcher [OF ne occ, of x]
    obtain p t where pt: "s = p @ matcher r @ t"
      "str_replace s (matcher r) (matcher r @ x) (Some 1) = p @ matcher r @ x @ t"
      "0 < str_count (p @ matcher r @ x @ t) (matcher r)"
      "str_replace (p @ matcher r @ x @ t) (matcher r) (matcher r @ x) (Some 1) =
         p @ matcher r @ x @ x @ t"
      by blast
    have s1: "s1 = p @ matcher r @ x @ t"
      using new(2) pt(2) by (simp only: rep cnt)
    have "apply_rule r s1 = Inr (p @ matcher r @ x @ x @ t)"
      using same pt(4) by (simp only: rep cnt s1)
    then show ?thesis using pt(1,3) s1 by blast
  qed
  show ?thesis using a b unfolding x_def by blast
qed


theorem rerun_rule_witness:
  \<open>apply_rule up_station_formError_state
     (''  const [toInput, setToInput] = useState('' @ [CHR 0x27] @ ''\');\<newline>\<newline>  // Add station to list'') =
     Inr (''  const [toInput, setToInput] = useState('' @ [CHR 0x27] @ ''\');\<newline>\<newline>  // Form validation error\<newline>  const [formError, setFormError] = useState('' @ [CHR 0x27] @ ''\');\<newline>\<newline>  // Add station to list'') \<and>
   str_count (''  const [toInput, setToInput] = useState('' @ [CHR 0x27] @ ''\');\<newline>\<newline>  // Form validation error\<newline>  const [formError, setFormError] = useState('' @ [CHR 0x27] @ ''\');\<newline>\<newline>  // Add station to list'')
     (matcher up_station_formError_state) = 0 \<and>
   apply_rule up_station_formError_state
     (''  const [toInput, setToInput] = useState('' @ [CHR 0x27] @ ''\');\<newline>\<newline>  // Form validation error\<newline>  const [formError, setFormError] = useState('' @ [CHR 0x27] @ ''\');\<newline>\<newline>  // Add station to list'') =
     Inr (''  const [toInput, setToInput] = useState('' @ [CHR 0x27] @ ''\');\<newline>\<newline>  // Form validation error\<newline>  const [formError, setFormError] = useState('' @ [CHR 0x27] @ ''\');\<newline>\<newline>  // Add station to list'') \<and>
   apply_rule fu_station_formError_state (matcher fu_station_formError_state) =
     Inr (the (replacement fu_station_formError_state)) \<and>
   0 < str_count (matcher fu_station_formError_state) (matcher fu_station_formError_state) \<and>
   0 < str_count (the (replacement fu_station_formError_state)) (matcher fu_station_formError_state)\<close>
proof -
  let ?s1 = \<open>''  const [toInput, setToInput] = useState('' @ [CHR 0x27] @ ''\');\<newline>\<newline>  // Form validation error\<newline>  const [formError, setFormError] = useState('' @ [CHR 0x27] @ ''\');\<newline>\<newline>  // Add station to list''\<close>
  have ap: \<open>apply_rule up_station_formError_state
      (''  const [toInput, setToInput] = useState('' @ [CHR 0x27] @ ''\');\<newline>\<newline>  // Add station to list'') = Inr ?s1\<close>
    by (simp add: up_station_formError_state_def)
  have none: "str_count ?s1 (matcher up_station_formError_state) = 0"
    by (simp add: up_station_formError_state_def)
  have again: "apply_rule up_station_formError_state ?s1 = Inr ?s1"
    using rerun_rule [OF ap] none by blast
  let ?m = "matcher fu_station_formError_state"
  have ap': "apply_rule fu_station_formError_state ?m = Inr (the (replacement fu_station_formError_state))"
    unfolding apply_fu_station_formError_state replacement_fu_station_formError_state
    unfolding matcher_fu_station_formError_state by simp
  have occ: "0 < str_count ?m ?m"
    unfolding matcher_fu_station_formError_state by simp
  have still: "0 < str_count (the (replacement fu_station_formError_state)) ?m"
    using rerun_rule [OF ap'] occ by blast
  show ?thesis
    using ap none again ap' occ still by blast
qed

text \<open>
  C1 fails on the code for the formError-state rule of \<^verbatim>\<open>final_update.py\<close>: applied to
  the matched line it appends the declaration; applied to that output it still finds
  one occurrence and appends the declaration again, so the text holds it twice.
\<close>

theorem formError_state_twice_duplicates:
  \<open>apply_rule fu_station_formError_state (''  const [toInput, setToInput] = useState('' @ [CHR 0x27] @ ''\');\<newline>'') =
     Inr (''  const [toInput, setToInput] = useState('' @ [CHR 0x27] @ ''\');\<newline>'' @
          ''\<newline>  // Form validation error\<newline>  const [formError, setFormError] = useState('' @ [CHR 0x27] @ ''\');\<newline>'') \<and>
   str_count (''  const [toInput, setToInput] = useState('' @ [CHR 0x27] @ ''\');\<newline>'' @
              ''\<newline>  // Form validation error\<newline>  const [formError, setFormError] = useState('' @ [CHR 0x27] @ ''\');\<newline>'')
     (matcher fu_station_formError_state) = 1 \<and>
   apply_rule fu_station_formError_state
     (''  const [toInput, setToInput] = useState('' @ [CHR 0x27] @ ''\');\<newline>'' @
      ''\<newline>  // Form validation error\<newline>  const [formError, setFormError] = useState('' @ [CHR 0x27] @ ''\');\<newline>'') =
     Inr (''  const [toInput, setToInput] = useState('' @ [CHR 0x27] @ ''\');\<newline>'' @
          ''\<newline>  // Form validation error\<newline>  const [formError, setFormError] = useState('' @ [CHR 0x27] @ ''\');\<newline>'' @
          ''\<newline>  // Form validation error\<newline>  const [formError, setFormError] = useState('' @ [CHR 0x27] @ ''\');\<newline>'') \<and>
   str_count (''  const [toInput, setToInput] = useState('' @ [CHR 0x27] @ ''\');\<newline>'' @
              ''\<newline>  // Form validation error\<newline>  const [formError, setFormError] = useState('' @ [CHR 0x27] @ ''\');\<newline>'' @
              ''\<newline>  // Form validation error\<newline>  const [formError, setFormError] = useState('' @ [CHR 0x27] @ ''\');\<newline>'')
     ''const [formError, setFormError]'' = 2\<close>
  unfolding apply_fu_station_formError_state replacement_fu_station_formError_state
  unfolding matcher_fu_station_formError_state
  by simp

section \<open>Facts about running statements\<close>

lemma exec_append:
  "exec (a @ b) w = (case exec a w of (s, None) \<Rightarrow> exec b s | (s, Some e) \<Rightarrow> (s, Some e))"
  by (induction a arbitrary: w) (auto split: prod.splits option.splits)




lemma exec_Assigns:
  "run_rules rs (content w) = Inr t \<Longrightarrow> exec (map Assign rs) w = (w\<lparr>content := t\<rparr>, None)"
proof (induction rs arbitrary: w)
  case Nil
  then show ?case by simp
next
  case (Cons r rs)
  then obtain u where u: "apply_rule r (content w) = Inr u" "run_rules rs u = Inr t"
    by (auto split: sum.splits)
  have "exec (map Assign rs) (w\<lparr>content := u\<rparr>) = (w\<lparr>content := u\<rparr>\<lparr>content := t\<rparr>, None)"
    using Cons.IH [of "w\<lparr>content := u\<rparr>"] u(2) by simp
  then show ?case using u(1) by simp
qed

lemma exec_Prints: "exec (map Print ls) w = (w\<lparr>stdout := stdout w @ ls\<rparr>, None)"
  by (induction ls arbitrary: w) auto

lemma run_rules_replace:
  "\<forall>r\<in>set rs. \<exists>old new cnt. r = Replace old new cnt \<Longrightarrow> \<exists>t. run_rules rs s = Inr t"
  by (induction rs arbitrary: s) auto

lemma run_rules_snoc:
  "run_rules (rs @ [r]) s =
     (case run_rules rs s of Inl e \<Rightarrow> Inl e | Inr t \<Rightarrow> apply_rule r t)"
  by (induction rs arbitrary: s) (auto split: sum.splits)

lemma paths_differ: "station_path \<noteq> region_path"
  by (simp add: station_path_def region_path_def)

lemma up_station_rules_run: "\<exists>t. run_rules up_station_rules s = Inr t"
  by (rule run_rules_replace)
    (simp add: up_station_rules_def up_station_formError_state_def up_station_addStation_def
      up_station_removeStation_def up_station_updateForm_def up_station_alert_def
      up_station_clear_on_submit_def up_station_error_ui_def up_station_aria_def)

lemma up_region_rules_run: "\<exists>t. run_rules up_region_rules s = Inr t"
  by (rule run_rules_replace)
    (simp add: up_region_rules_def up_region_formError_state_def up_region_updateForm_def
      up_region_alert_origin_def up_region_alert_destination_def up_region_clear_on_submit_def
      up_region_error_ui_def up_region_aria_def)


lemma exec_page:
  assumes "read_file (files w p) = Inr c" and "run_rules rs c = Inr t"
    and "write_file (files w p) t = (f, e)"
  shows "exec (ReadFile p # map Assign rs @ WriteFile p # map Print ls) w =
    (case e of
       None \<Rightarrow> (w\<lparr>content := t, files := (files w)(p \<mapsto> f), stdout := stdout w @ ls\<rparr>, None)
     | Some x \<Rightarrow> (w\<lparr>content := t, files := (files w)(p \<mapsto> f)\<rparr>, Some x))"
proof -
  have "exec (map Assign rs) (w\<lparr>content := c\<rparr>) = (w\<lparr>content := t\<rparr>, None)"
    using exec_Assigns [of rs "w\<lparr>content := c\<rparr>" t] assms(2) by simp
  then show ?thesis
    using assms(1,3) by (simp add: exec_append exec_Prints split: option.splits)
qed

lemma update_pages_station_page:
  "update_pages_station =
     ReadFile station_path # map Assign up_station_rules @
     WriteFile station_path # map Print [''Updated StationHaulingPage.jsx'']"
  by (simp add: update_pages_station_def)

lemma update_pages_region_page:
  "update_pages_region =
     ReadFile region_path # map Assign up_region_rules @
     WriteFile region_path #
     map Print [''Updated RegionHaulingPage.jsx'', ''All files updated successfully!'']"
  by (simp add: update_pages_region_def)

lemma exec_update_pages_unread:
  "read_file (files w station_path) = Inl e \<Longrightarrow> exec update_pages w = (w, Some e)"
  by (simp add: update_pages_def update_pages_station_def)

lemma exec_update_pages_station_raises:
  assumes "read_file (files w station_path) = Inr c" and "run_rules up_station_rules c = Inr t"
    and "write_file (files w station_path) t = (f, Some e)"
  shows "exec update_pages w =
    (w\<lparr>content := t, files := (files w)(station_path \<mapsto> f)\<rparr>, Some e)"
  unfolding update_pages_def update_pages_station_page
  using exec_page [OF assms, of "[''Updated StationHaulingPage.jsx'']"]
  by (simp only: exec_append) simp

lemma exec_update_pages_station_done:
  assumes "read_file (files w station_path) = Inr c" and "run_rules up_station_rules c = Inr t"
    and "write_file (files w station_path) t = (f, None)"
  shows "exec update_pages w =
    exec update_pages_region
      (w\<lparr>content := t, files := (files w)(station_path \<mapsto> f),
         stdout := stdout w @ [''Updated StationHaulingPage.jsx'']\<rparr>)"
  unfolding update_pages_def update_pages_station_page
  using exec_page [OF assms, of "[''Updated StationHaulingPage.jsx'']"]
  by (simp only: exec_append) simp

lemma exec_update_pages_region_unread:
  "read_file (files w region_path) = Inl e \<Longrightarrow> exec update_pages_region w = (w, Some e)"
  by (simp add: update_pages_region_def)

lemma exec_update_pages_region:
  assumes "read_file (files w region_path) = Inr d" and "run_rules up_region_rules d = Inr u"
    and "write_file (files w region_path) u = (g, e)"
  shows "exec update_pages_region w =
    (case e of
       None \<Rightarrow> (w\<lparr>content := u, files := (files w)(region_path \<mapsto> g),
          stdout := stdout w @
            [''Updated RegionHaulingPage.jsx'', ''All files updated successfully!'']\<rparr>, None)
     | Some x \<Rightarrow> (w\<lparr>content := u, files := (files w)(region_path \<mapsto> g)\<rparr>, Some x))"
  unfolding update_pages_region_page
  by (rule exec_page [OF assms])

lemma fu_station_addStation_raises: "apply_rule fu_station_addStation s = Inl ReError"
  by (simp add: fu_station_addStation_def re_sub_def)

lemma exec_final_update_unread:
  "read_file (files w station_path) = Inl e \<Longrightarrow> exec final_update w = (w, Some e)"
  by (simp add: final_update_def final_update_station_def)

lemma exec_final_update:
  "read_file (files w station_path) = Inr c \<Longrightarrow>
   exec final_update w =
     (w\<lparr>content := str_replace c (matcher fu_station_formError_state)
         (the (replacement fu_station_formError_state)) (Some 1)\<rparr>, Some ReError)"
  by (simp add: final_update_def final_update_station_def apply_fu_station_formError_state
      fu_station_addStation_raises)



section \<open>What a run of \<^verbatim>\<open>final_update.py\<close> does\<close>

text \<open>
  C10 says that both scripts write each file and print their success lines whatever the
  matchers find. \<^verbatim>\<open>final_update.py\<close> does not get that far: the pattern of its second
  rule (line 18) has an unescaped \<^verbatim>\<open>)\<close> too many, \<^verbatim>\<open>re.sub\<close> raises \<^verbatim>\<open>re.error\<close> before
  looking at the buffer, and the run ends there. Whatever the files hold, nothing is
  written, nothing is printed and the exit code is 1; with a one-character station file
  the run stops with the buffer just read.
\<close>

theorem final_update_never_writes:
  "files (fst (exec final_update w)) = files w \<and>
   stdout (fst (exec final_update w)) = stdout w \<and>
   snd (exec final_update w) \<noteq> None \<and>
   exit_code (exec final_update w) = 1 \<and>
   exec final_update
     \<lparr>files = [station_path \<mapsto> plain_file ''x'', region_path \<mapsto> plain_file ''y''],
      content = [], stdout = []\<rparr> =
     (\<lparr>files = [station_path \<mapsto> plain_file ''x'', region_path \<mapsto> plain_file ''y''],
       content = ''x'', stdout = []\<rparr>,
      Some ReError)"
proof -
  have general: "files (fst (exec final_update w)) = files w \<and>
      stdout (fst (exec final_update w)) = stdout w \<and>
      snd (exec final_update w) \<noteq> None \<and> exit_code (exec final_update w) = 1"
  proof (cases "read_file (files w station_path)")
    case (Inl e)
    then show ?thesis by (simp add: exec_final_update_unread)
  next
    case (Inr c)
    then show ?thesis by (simp add: exec_final_update)
  qed
  let ?w = "\<lparr>files = [station_path \<mapsto> plain_file ''x'', region_path \<mapsto> plain_file ''y''],
      content = [], stdout = []\<rparr>"
  have "read_file (files ?w station_path) = Inr ''x''"
    using paths_differ by (simp add: plain_file_def)
  from exec_final_update [OF this]
  have "exec final_update ?w = (?w\<lparr>content := ''x''\<rparr>, Some ReError)"
    unfolding matcher_fu_station_formError_state by simp
  then show ?thesis using general by simp
qed

section \<open>A run of \<^verbatim>\<open>update_pages.py\<close> in closed form\<close>

lemma up_rules_never_raise:
  "run_rules up_station_rules s \<noteq> Inl e" "run_rules up_region_rules s \<noteq> Inl e"
  using up_station_rules_run [of s] up_region_rules_run [of s] by auto

lemma exec_update_pages_eq:
  "exec update_pages w =
     (case read_file (files w station_path) of
        Inl e \<Rightarrow> (w, Some e)
      | Inr c \<Rightarrow>
          (case run_rules up_station_rules c of
             Inl e \<Rightarrow> (w, Some e)
           | Inr t \<Rightarrow>
               (case write_file (files w station_path) t of
                  (f, Some e) \<Rightarrow>
                    (w\<lparr>content := t, files := (files w)(station_path \<mapsto> f)\<rparr>, Some e)
                | (f, None) \<Rightarrow>
                    (case read_file (files w region_path) of
                       Inl e \<Rightarrow>
                         (w\<lparr>content := t, files := (files w)(station_path \<mapsto> f),
                            stdout := stdout w @ [''Updated StationHaulingPage.jsx'']\<rparr>, Some e)
                     | Inr d \<Rightarrow>
                         (case run_rules up_region_rules d of
                            Inl e \<Rightarrow> (w, Some e)
                          | Inr u \<Rightarrow>
                              (case write_file (files w region_path) u of
                                 (g, Some e) \<Rightarrow>
                                   (w\<lparr>content := u,
                                      files := (files w)(station_path \<mapsto> f, region_path \<mapsto> g),
                                      stdout := stdout w @ [''Updated StationHaulingPage.jsx'']\<rparr>,
                                    Some e)
                               | (g, None) \<Rightarrow>
                                   (w\<lparr>content := u,
                                      files := (files w)(station_path \<mapsto> f, region_path \<mapsto> g),
                                      stdout := stdout w @
                                        [''Updated StationHaulingPage.jsx'',
                                         ''Updated RegionHaulingPage.jsx'',
                                         ''All files updated successfully!'']\<rparr>,
                                    None)))))))"
proof (cases "read_file (files w station_path)")
  case (Inl e)
  then show ?thesis by (simp add: exec_update_pages_unread)
next
  case (Inr c)
  obtain t where t: "run_rules up_station_rules c = Inr t"
    using up_station_rules_run by blast
  obtain f e where wr: "write_file (files w station_path) t = (f, e)"
    by (cases "write_file (files w station_path) t")
  show ?thesis
  proof (cases e)
    case (Some x)
    then show ?thesis
      using Inr t wr exec_update_pages_station_raises [OF Inr t, of f x] by simp
  next
    case None
    let ?w1 = "w\<lparr>content := t, files := (files w)(station_path \<mapsto> f),
         stdout := stdout w @ [''Updated StationHaulingPage.jsx'']\<rparr>"
    have run: "exec update_pages w = exec update_pages_region ?w1"
      using exec_update_pages_station_done [OF Inr t, of f] wr None by simp
    have r1: "files ?w1 region_path = files w region_path"
      using paths_differ by simp
    show ?thesis
    proof (cases "read_file (files w region_path)")
      case (Inl e')
      then have "exec update_pages_region ?w1 = (?w1, Some e')"
        using r1 by (simp only: exec_update_pages_region_unread)
      then show ?thesis using Inr t wr None Inl run by simp
    next
      case d: (Inr d)
      obtain u where u: "run_rules up_region_rules d = Inr u"
        using up_region_rules_run by blast
      obtain g e' where wr': "write_file (files w region_path) u = (g, e')"
        by (cases "write_file (files w region_path) u")
      have rd: "read_file (files ?w1 region_path) = Inr d"
        using paths_differ d by simp
      have wr1: "write_file (files ?w1 region_path) u = (g, e')"
        using paths_differ wr' by simp
      have "exec update_pages_region ?w1 =
        (case e' of
           None \<Rightarrow> (?w1\<lparr>content := u, files := (files ?w1)(region_path \<mapsto> g),
              stdout := stdout ?w1 @
                [''Updated RegionHaulingPage.jsx'', ''All files updated successfully!'']\<rparr>, None)
         | Some x \<Rightarrow> (?w1\<lparr>content := u, files := (files ?w1)(region_path \<mapsto> g)\<rparr>, Some x))"
        by (rule exec_update_pages_region [OF rd u wr1])
      then show ?thesis
        using Inr t wr None d u wr' run by (cases e') simp_all
    qed
  qed
qed










section \<open>What a run of \<^verbatim>\<open>update_pages.py\<close> reports\<close>







section \<open>The disk during a run\<close>






lemma update_pages_structure:
  "take 9 update_pages = ReadFile station_path # map Assign up_station_rules"
  "update_pages ! 9 = WriteFile station_path"
  "take 10 update_pages = ReadFile station_path # map Assign up_station_rules @ [WriteFile station_path]"
  "drop 10 update_pages = Print ''Updated StationHaulingPage.jsx'' # update_pages_region"
  "take 8 (drop 11 update_pages) = ReadFile region_path # map Assign up_region_rules"
  "update_pages ! 19 = WriteFile region_path"
  "take 19 update_pages =
     update_pages_station @ ReadFile region_path # map Assign up_region_rules"
  "take 20 update_pages =
     update_pages_station @ ReadFile region_path # map Assign up_region_rules @ [WriteFile region_path]"
  "drop 20 update_pages =
     [Print ''Updated RegionHaulingPage.jsx'', Print ''All files updated successfully!'']"
  by (simp_all add: update_pages_def update_pages_station_def update_pages_region_def
      up_station_rules_def up_region_rules_def)











section \<open>The result depends on the input files only\<close>

lemma exec_read_rules:
  "read_file (files w p) = Inr c \<Longrightarrow> run_rules rs c = Inr t \<Longrightarrow>
   exec (ReadFile p # map Assign rs) w = (w\<lparr>content := t\<rparr>, None)"
  using exec_Assigns [of rs "w\<lparr>content := c\<rparr>" t] by simp

lemma take_8_update_pages_region:
  "take 8 update_pages_region = ReadFile region_path # map Assign up_region_rules"
  by (simp add: update_pages_region_def up_region_rules_def)

text \<open>
  C9. Two runs of a script on the same two target files (the same text, and the same
  permissions and device) end the same way and leave the same text in each target
  file, whatever else differs between the two runs (other files, earlier output, a
  stale buffer); the buffer held at the end is the same too as soon as the station file
  was read. The text the rules compute depends on the text read alone: two runs that
  read the same text from a page hand the same buffer to the write of that page, and
  \<^verbatim>\<open>final_update.py\<close> ends with the same buffer. The rules are fixed by the script.
\<close>

theorem same_text_same_result:
  "files w1 station_path = files w2 station_path \<Longrightarrow>
   files w1 region_path = files w2 region_path \<Longrightarrow>
   snd (exec update_pages w1) = snd (exec update_pages w2) \<and>
   files (fst (exec update_pages w1)) station_path =
     files (fst (exec update_pages w2)) station_path \<and>
   files (fst (exec update_pages w1)) region_path =
     files (fst (exec update_pages w2)) region_path \<and>
   ((\<exists>c. read_file (files w1 station_path) = Inr c) \<longrightarrow>
     content (fst (exec update_pages w1)) = content (fst (exec update_pages w2))) \<and>
   snd (exec final_update w1) = snd (exec final_update w2) \<and>
   files (fst (exec final_update w1)) station_path =
     files (fst (exec final_update w2)) station_path \<and>
   files (fst (exec final_update w1)) region_path =
     files (fst (exec final_update w2)) region_path \<and>
   ((\<exists>c. read_file (files w1 station_path) = Inr c) \<longrightarrow>
     content (fst (exec final_update w1)) = content (fst (exec final_update w2))) \<and>
   ((\<exists>c. read_file (files v1 station_path) = Inr c \<and> read_file (files v2 station_path) = Inr c) \<longrightarrow>
     content (fst (exec (take 9 update_pages) v1)) =
       content (fst (exec (take 9 update_pages) v2)) \<and>
     content (fst (exec final_update v1)) = content (fst (exec final_update v2))) \<and>
   ((\<exists>d. read_file (files v1 region_path) = Inr d \<and> read_file (files v2 region_path) = Inr d) \<longrightarrow>
     content (fst (exec (take 8 update_pages_region) v1)) =
       content (fst (exec (take 8 update_pages_region) v2)))"
proof -
  assume s: "files w1 station_path = files w2 station_path"
    and r: "files w1 region_path = files w2 region_path"
  have st: "content (fst (exec (take 9 update_pages) v1)) =
        content (fst (exec (take 9 update_pages) v2)) \<and>
      content (fst (exec final_update v1)) = content (fst (exec final_update v2))"
    if "read_file (files v1 station_path) = Inr c" "read_file (files v2 station_path) = Inr c"
    for c
  proof -
    obtain t where t: "run_rules up_station_rules c = Inr t"
      using up_station_rules_run by blast
    have "exec (take 9 update_pages) v1 = (v1\<lparr>content := t\<rparr>, None)"
      "exec (take 9 update_pages) v2 = (v2\<lparr>content := t\<rparr>, None)"
      unfolding update_pages_structure(1)
      by (rule exec_read_rules [OF that(1) t], rule exec_read_rules [OF that(2) t])
    then show ?thesis
      by (simp add: exec_final_update [OF that(1)] exec_final_update [OF that(2)])
  qed
  have rg: "content (fst (exec (take 8 update_pages_region) v1)) =
        content (fst (exec (take 8 update_pages_region) v2))"
    if "read_file (files v1 region_path) = Inr d" "read_file (files v2 region_path) = Inr d"
    for d
  proof -
    obtain u where u: "run_rules up_region_rules d = Inr u"
      using up_region_rules_run by blast
    have "exec (take 8 update_pages_region) v1 = (v1\<lparr>content := u\<rparr>, None)"
      "exec (take 8 update_pages_region) v2 = (v2\<lparr>content := u\<rparr>, None)"
      unfolding take_8_update_pages_region
      by (rule exec_read_rules [OF that(1) u], rule exec_read_rules [OF that(2) u])
    then show ?thesis by simp
  qed
  have fu: "snd (exec final_update w1) = snd (exec final_update w2) \<and>
      files (fst (exec final_update w1)) station_path =
        files (fst (exec final_update w2)) station_path \<and>
      files (fst (exec final_update w1)) region_path =
        files (fst (exec final_update w2)) region_path \<and>
      ((\<exists>c. read_file (files w1 station_path) = Inr c) \<longrightarrow>
        content (fst (exec final_update w1)) = content (fst (exec final_update w2)))"
  proof (cases "read_file (files w1 station_path)")
    case (Inl e)
    then have "read_file (files w2 station_path) = Inl e" using s by simp
    then show ?thesis using Inl s r by (simp add: exec_final_update_unread)
  next
    case (Inr c)
    then have "read_file (files w2 station_path) = Inr c" using s by simp
    then show ?thesis using Inr s r by (simp add: exec_final_update)
  qed
  have up: "snd (exec update_pages w1) = snd (exec update_pages w2) \<and>
      files (fst (exec update_pages w1)) station_path =
        files (fst (exec update_pages w2)) station_path \<and>
      files (fst (exec update_pages w1)) region_path =
        files (fst (exec update_pages w2)) region_path \<and>
      ((\<exists>c. read_file (files w1 station_path) = Inr c) \<longrightarrow>
        content (fst (exec update_pages w1)) = content (fst (exec update_pages w2)))"
    using paths_differ r
    by (auto simp: exec_update_pages_eq s up_rules_never_raise
        split: sum.splits prod.splits option.splits)
  show ?thesis using fu up st rg by blast
qed

theorem same_text_same_result_witness:
  "files (fst (exec update_pages
     \<lparr>files = [station_path \<mapsto> plain_file ''a'', region_path \<mapsto> plain_file ''b''],
      content = [], stdout = []\<rparr>))
     station_path =
   files (fst (exec update_pages
     \<lparr>files = [station_path \<mapsto> plain_file ''a'', region_path \<mapsto> plain_file ''b'',
               ''notes.txt'' \<mapsto> plain_file ''n''],
      content = ''stale'', stdout = [''earlier'']\<rparr>)) station_path \<and>
   content (fst (exec final_update
     \<lparr>files = [station_path \<mapsto> plain_file ''a'', region_path \<mapsto> plain_file ''b''],
      content = [], stdout = []\<rparr>)) =
   content (fst (exec final_update
     \<lparr>files = [station_path \<mapsto> plain_file ''a'', region_path \<mapsto> plain_file ''b'',
               ''notes.txt'' \<mapsto> plain_file ''n''],
      content = ''stale'', stdout = [''earlier'']\<rparr>))"
proof -
  let ?w1 = "\<lparr>files = [station_path \<mapsto> plain_file ''a'', region_path \<mapsto> plain_file ''b''],
      content = [], stdout = []\<rparr>"
  let ?w2 = "\<lparr>files = [station_path \<mapsto> plain_file ''a'', region_path \<mapsto> plain_file ''b'',
               ''notes.txt'' \<mapsto> plain_file ''n''],
      content = ''stale'', stdout = [''earlier'']\<rparr>"
  have s: "files ?w1 station_path = files ?w2 station_path"
    using paths_differ by (simp add: station_path_def)
  have r: "files ?w1 region_path = files ?w2 region_path"
    by (simp add: region_path_def)
  have rd: "\<exists>c. read_file (files ?w1 station_path) = Inr c"
    using paths_differ by (simp add: plain_file_def)
  show ?thesis
    using same_text_same_result [OF s r] rd by blast
qed

section \<open>Rules see the text the rules before them produced\<close>

lemma exec_snoc_Assign:
  "exec cs w = (st, None) \<Longrightarrow>
   exec (cs @ [Assign r]) w =
     (case apply_rule r (content st) of
        Inl e \<Rightarrow> (st, Some e)
      | Inr t \<Rightarrow> (st\<lparr>content := t\<rparr>, None))"
  by (simp add: exec_append split: sum.splits)

lemma alert_then_clear_up:
  \<open>str_count (''      if (!fromLocation || !toLocation) {\<newline>        alert(\'Please select at least one station for both origin and destination\');\<newline>        return;\<newline>      }\<newline>\<newline>      try {'')
     (matcher up_station_clear_on_submit) = 0 \<and>
   run_rules [up_station_alert, up_station_clear_on_submit]
     (''      if (!fromLocation || !toLocation) {\<newline>        alert(\'Please select at least one station for both origin and destination\');\<newline>        return;\<newline>      }\<newline>\<newline>      try {'') =
     Inr (''      if (!fromLocation || !toLocation) {\<newline>        setFormError(\'Please select at least one station for both origin and destination\');\<newline>        return;\<newline>      }\<newline>\<newline>      // Clear form error on valid submission\<newline>      setFormError('' @ [CHR 0x27] @ ''\');\<newline>\<newline>      try {'')\<close>
  by (simp add: up_station_alert_def up_station_clear_on_submit_def)

lemma alert_then_clear_fu:
  \<open>str_count (''      if (!fromLocation || !toLocation) {\<newline>        alert(\'Please select at least one station for both origin and destination\');\<newline>        return;\<newline>      }\<newline>\<newline>      try {'')
     (matcher fu_station_alert) = 1 \<and>
   str_count (''      if (!fromLocation || !toLocation) {\<newline>        alert(\'Please select at least one station for both origin and destination\');\<newline>        return;\<newline>      }\<newline>\<newline>      try {'')
     (matcher fu_station_clear_on_submit) = 0 \<and>
   run_rules [fu_station_alert, fu_station_clear_on_submit]
     (''      if (!fromLocation || !toLocation) {\<newline>        alert(\'Please select at least one station for both origin and destination\');\<newline>        return;\<newline>      }\<newline>\<newline>      try {'') =
     Inr (''      if (!fromLocation || !toLocation) {\<newline>        setFormError(\'Please select at least one station for both origin and destination\');\<newline>        return;\<newline>      }\<newline>\<newline>      // Clear form error on valid submission\<newline>      setFormError('' @ [CHR 0x27] @ ''\');\<newline>\<newline>      try {'')\<close>
  by (simp add: fu_station_alert_def fu_station_clear_on_submit_def re_sub_def)


text \<open>
  C4. Statements run in the order of the source, and a rule is applied to the buffer the
  statements before it left, not to the text read from the file: running one more rule
  after a run of statements (or of rules) applies it to that run's result. In both
  scripts the alert rule comes right before the rule that adds the error clearing, and
  on a buffer holding the \<^verbatim>\<open>alert(...)\<close> check the later rule's matcher, which has no
  occurrence in the buffer as read, matches the \<^verbatim>\<open>setFormError(...)\<close> text the alert rule
  has just put there.
\<close>

theorem rules_compose_in_order:
  \<open>(exec cs w = (st, None) \<longrightarrow>
      exec (cs @ [Assign r]) w =
        (case apply_rule r (content st) of
           Inl e \<Rightarrow> (st, Some e)
         | Inr t \<Rightarrow> (st\<lparr>content := t\<rparr>, None))) \<and>
   run_rules (rs @ [r]) s =
     (case run_rules rs s of Inl e \<Rightarrow> Inl e | Inr t \<Rightarrow> apply_rule r t) \<and>
   up_station_rules ! 4 = up_station_alert \<and>
   up_station_rules ! 5 = up_station_clear_on_submit \<and>
   final_update ! 8 = Assign fu_station_alert \<and>
   final_update ! 9 = Assign fu_station_clear_on_submit \<and>
   str_count (''      if (!fromLocation || !toLocation) {\<newline>        alert(\'Please select at least one station for both origin and destination\');\<newline>        return;\<newline>      }\<newline>\<newline>      try {'')
     (matcher up_station_clear_on_submit) = 0 \<and>
   run_rules [up_station_alert, up_station_clear_on_submit]
     (''      if (!fromLocation || !toLocation) {\<newline>        alert(\'Please select at least one station for both origin and destination\');\<newline>        return;\<newline>      }\<newline>\<newline>      try {'') =
     Inr (''      if (!fromLocation || !toLocation) {\<newline>        setFormError(\'Please select at least one station for both origin and destination\');\<newline>        return;\<newline>      }\<newline>\<newline>      // Clear form error on valid submission\<newline>      setFormError('' @ [CHR 0x27] @ ''\');\<newline>\<newline>      try {'') \<and>
   str_count (''      if (!fromLocation || !toLocation) {\<newline>        alert(\'Please select at least one station for both origin and destination\');\<newline>        return;\<newline>      }\<newline>\<newline>      try {'')
     (matcher fu_station_clear_on_submit) = 0 \<and>
   run_rules [fu_station_alert, fu_station_clear_on_submit]
     (''      if (!fromLocation || !toLocation) {\<newline>        alert(\'Please select at least one station for both origin and destination\');\<newline>        return;\<newline>      }\<newline>\<newline>      try {'') =
     Inr (''      if (!fromLocation || !toLocation) {\<newline>        setFormError(\'Please select at least one station for both origin and destination\');\<newline>        return;\<newline>      }\<newline>\<newline>      // Clear form error on valid submission\<newline>      setFormError('' @ [CHR 0x27] @ ''\');\<newline>\<newline>      try {'')\<close>
proof -
  have step: "exec cs w = (st, None) \<longrightarrow>
      exec (cs @ [Assign r]) w =
        (case apply_rule r (content st) of
           Inl e \<Rightarrow> (st, Some e)
         | Inr t \<Rightarrow> (st\<lparr>content := t\<rparr>, None))"
    using exec_snoc_Assign by blast
  have order: "up_station_rules ! 4 = up_station_alert"
    "up_station_rules ! 5 = up_station_clear_on_submit"
    "final_update ! 8 = Assign fu_station_alert"
    "final_update ! 9 = Assign fu_station_clear_on_submit"
    by (simp_all add: up_station_rules_def final_update_def final_update_station_def)
  show ?thesis
    using step run_rules_snoc [of rs r s] order alert_then_clear_up alert_then_clear_fu
    by blast
qed

theorem rules_compose_in_order_witness:
  "exec [Assign (Replace ''alert'' ''setFormError'' None)]
     \<lparr>files = Map.empty, content = ''alert(1)'', stdout = []\<rparr> =
     (\<lparr>files = Map.empty, content = ''setFormError(1)'', stdout = []\<rparr>, None) \<and>
   str_count ''alert(1)'' ''setFormError(1)'' = 0 \<and>
   exec [Assign (Replace ''alert'' ''setFormError'' None),
         Assign (Replace ''setFormError(1)'' ''setFormError(1); clear()'' None)]
     \<lparr>files = Map.empty, content = ''alert(1)'', stdout = []\<rparr> =
     (\<lparr>files = Map.empty, content = ''setFormError(1); clear()'', stdout = []\<rparr>, None)"
proof -
  let ?w = "\<lparr>files = Map.empty, content = ''alert(1)'', stdout = []\<rparr>"
  let ?st = "\<lparr>files = Map.empty, content = ''setFormError(1)'', stdout = []\<rparr>"
  have first: "exec [Assign (Replace ''alert'' ''setFormError'' None)] ?w = (?st, None)"
    by simp
  have unseen: "str_count ''alert(1)'' ''setFormError(1)'' = 0"
    by simp
  have "exec ([Assign (Replace ''alert'' ''setFormError'' None)] @
        [Assign (Replace ''setFormError(1)'' ''setFormError(1); clear()'' None)]) ?w =
      (case apply_rule (Replace ''setFormError(1)'' ''setFormError(1); clear()'' None) (content ?st) of
         Inl e \<Rightarrow> (?st, Some e)
       | Inr t \<Rightarrow> (?st\<lparr>content := t\<rparr>, None))"
    using rules_compose_in_order
      [of "[Assign (Replace ''alert'' ''setFormError'' None)]" ?w ?st
        "Replace ''setFormError(1)'' ''setFormError(1); clear()'' None"] first
    by blast
  then have "exec [Assign (Replace ''alert'' ''setFormError'' None),
         Assign (Replace ''setFormError(1)'' ''setFormError(1); clear()'' None)] ?w =
     (\<lparr>files = Map.empty, content = ''setFormError(1); clear()'', stdout = []\<rparr>, None)"
    by (simp del: exec.simps)
  then show ?thesis using first unseen by blast
qed

end
